theory Spec2Isabelle
  imports Complex_Main "HOL-Library.Word" "HOL-Library.Signed_Division"
begin

section \<open>Numeric conventions\<close>

text \<open>
  The firmware is C++ for an embedded ARM core. \<open>int\<close>, \<open>int32_t\<close>, \<open>u32\<close>,
  \<open>uintptr_t\<close> and \<open>unsigned long\<close> are taken as 32-bit machine words: \<open>+\<close>, \<open>-\<close> and
  \<open>*\<close> wrap around, \<open>sint\<close> reads a word as two's complement and \<open>uint\<close> as
  unsigned. A cast between \<open>int32_t\<close> and \<open>u32\<close> keeps the bits, so both are the
  same type here and only the comparisons say which reading is meant.

  \<open>float\<close> and \<open>double\<close> are modelled by \<open>real\<close>: every operation is the exact
  one, rounding is not modelled, and there is no NaN and no infinity. Where the
  source divides by a value that can be zero the division is written with
  \<open>fdiv\<close> below, which has no result there; elsewhere the concrete inputs used
  in this development keep every divisor away from zero.
\<close>

type_synonym int32 = "32 word"
type_synonym u32 = "32 word"

text \<open>C's \<open>/\<close> on \<open>int\<close>: the quotient is truncated towards zero.\<close>

definition sdiv32 :: "int32 \<Rightarrow> int32 \<Rightarrow> int32" where
  "sdiv32 a b = word_of_int (sint a sdiv sint b)"

text \<open>The cast \<open>(int32_t)x\<close> of a floating-point value: the fraction is dropped.\<close>

definition trunc :: "real \<Rightarrow> int" where
  "trunc x = (if 0 \<le> x then \<lfloor>x\<rfloor> else \<lceil>x\<rceil>)"

definition to_int32 :: "real \<Rightarrow> int32" where
  "to_int32 x = word_of_int (trunc x)"

text \<open>The conversion \<open>(float)n\<close> of an \<open>int32_t\<close>.\<close>

definition of_int32 :: "int32 \<Rightarrow> real" where
  "of_int32 n = real_of_int (sint n)"

text \<open>
  A floating-point division whose divisor may be zero. IEEE arithmetic returns
  NaN or an infinity there; \<open>None\<close> stands for such a non-finite value.
\<close>

definition fdiv :: "real \<Rightarrow> real \<Rightarrow> real option" where
  "fdiv a b = (if b = 0 then None else Some (a / b))"

section \<open>MotionBoard.hpp: the motor controller\<close>

datatype xstatus = XST_SUCCESS | XST_FAILURE

text \<open>
  The fields of \<open>class MotorController\<close> that the operations below read, and the
  four memory-mapped registers behind \<open>gpioOutBase\<close> and \<open>gpioInBase\<close>:
  \<open>gpioOut[0]\<close> is the target position, \<open>gpioOut[2]\<close> the origin output,
  \<open>gpioIn[0]\<close> the current position and \<open>gpioIn[2]\<close> the current rpm.
  \<open>fitCoeffs[0..3]\<close> are the four fields \<open>fitCoeffs0\<close> .. \<open>fitCoeffs3\<close>.
\<close>

record MotorController =
  gpioOutBase :: u32
  gpioInBase :: u32
  gpioInitialized :: bool
  posOffset :: int32
  minValue :: int32
  maxValue :: int32
  lowerLimit :: int32
  upperLimit :: int32
  minCap :: int32
  maxCap :: int32
  fitCoeffs0 :: real
  fitCoeffs1 :: real
  fitCoeffs2 :: real
  fitCoeffs3 :: real
  reg_TAR_POS :: u32
  reg_SET_ORIGIN :: u32
  reg_NOW_POS :: u32
  reg_NOW_RPM :: u32

text \<open>The constructor \<open>MotorController(outGpioBase, inGpioBase)\<close>, registers at 0.\<close>

definition MotorController_init :: "u32 \<Rightarrow> u32 \<Rightarrow> MotorController" where
  "MotorController_init outBase inBase =
     \<lparr> gpioOutBase = outBase, gpioInBase = inBase, gpioInitialized = False,
       posOffset = 0, minValue = 0, maxValue = 64000,
       lowerLimit = 4000, upperLimit = 60000,
       minCap = 0, maxCap = 100000,
       fitCoeffs0 = 0, fitCoeffs1 = 0, fitCoeffs2 = 0, fitCoeffs3 = 0,
       reg_TAR_POS = 0, reg_SET_ORIGIN = 0, reg_NOW_POS = 0, reg_NOW_RPM = 0 \<rparr>"

definition initializeGpio :: "MotorController \<Rightarrow> u32 \<Rightarrow> u32 \<Rightarrow> xstatus \<times> MotorController" where
  "initializeGpio m outBase inBase =
     (let m1 = m\<lparr>gpioOutBase := outBase, gpioInBase := inBase\<rparr>
      in if outBase = 0 \<or> inBase = 0 then (XST_FAILURE, m1)
         else (XST_SUCCESS, m1\<lparr>gpioInitialized := True\<rparr>))"

definition readPosRaw :: "MotorController \<Rightarrow> u32" where
  "readPosRaw m = (if \<not> gpioInitialized m \<or> gpioInBase m = 0 then 0 else reg_NOW_POS m)"

definition readPos :: "MotorController \<Rightarrow> int32" where
  "readPos m = readPosRaw m + posOffset m"

definition readRpm :: "MotorController \<Rightarrow> u32" where
  "readRpm m = (if \<not> gpioInitialized m \<or> gpioInBase m = 0 then 0 else reg_NOW_RPM m)"

subsection \<open>getPositionPercent\<close>

text \<open>The local \<open>percent\<close> of \<open>getPositionPercent\<close>, before it is clamped.\<close>

definition positionPercentRaw :: "MotorController \<Rightarrow> int32" where
  "positionPercentRaw m =
     sdiv32 ((readPos m - minValue m) * 100) (maxValue m - minValue m)"

definition getPositionPercent :: "MotorController \<Rightarrow> int32" where
  "getPositionPercent m =
     (if sint (maxValue m) \<le> sint (minValue m) then 0
      else let percent = positionPercentRaw m
           in if sint percent < 0 then 0
              else if sint percent > 100 then 100 else percent)"

subsection \<open>RunMotor\<close>

text \<open>
  What \<open>RunMotor\<close> prints through \<open>xil_printf\<close>: the clamp message with the
  requested target, the clamped target and the two limits, and the two status
  lines of \<open>printStatus\<close> with position and rpm.
\<close>

datatype motor_log =
    LogClamped int32 int32 int32 int32
  | LogBefore u32 u32
  | LogAfter u32 u32

text \<open>
  \<open>RunMotor(targetPosition, printStatus, afterDelayMs)\<close> returns the status, the
  controller with its registers after the call, and the lines printed. The
  delays (\<open>usleep\<close>) are not modelled; the fabric moves the motor
  asynchronously, so the position register read for the second status line is
  the one held in the state.
\<close>

definition RunMotor ::
  "MotorController \<Rightarrow> int32 \<Rightarrow> bool \<Rightarrow> u32 \<Rightarrow> xstatus \<times> MotorController \<times> motor_log list" where
  "RunMotor m targetPosition printStatus afterDelayMs =
     (if \<not> gpioInitialized m \<or> gpioOutBase m = 0 then (XST_FAILURE, m, [])
      else
        let (clampedPosition, wasClamped) =
              (if sint targetPosition < sint (lowerLimit m) then (lowerLimit m, True)
               else if sint targetPosition > sint (upperLimit m) then (upperLimit m, True)
               else (targetPosition, False));
            log1 = (if wasClamped
                    then [LogClamped targetPosition clampedPosition (lowerLimit m) (upperLimit m)]
                    else []);
            log2 = (if printStatus then [LogBefore (readPos m) (readRpm m)] else []);
            m' = m\<lparr>reg_TAR_POS := clampedPosition\<rparr>;
            log3 = (if printStatus then [LogAfter (readPos m') (readRpm m')] else [])
        in (XST_SUCCESS, m', log1 @ log2 @ log3))"

subsection \<open>Capacitance and position\<close>

definition isFittingCalibrated :: "MotorController \<Rightarrow> bool" where
  "isFittingCalibrated m =
     (fitCoeffs0 m \<noteq> 0 \<or> fitCoeffs1 m \<noteq> 0 \<or> fitCoeffs2 m \<noteq> 0 \<or> fitCoeffs3 m \<noteq> 0)"

text \<open>The cubic \<open>a3*x*x*x + a2*x*x + a1*x + a0\<close>, written as both functions write it.\<close>

definition fitPoly :: "MotorController \<Rightarrow> real \<Rightarrow> real" where
  "fitPoly m xNorm =
     fitCoeffs3 m * xNorm * xNorm * xNorm + fitCoeffs2 m * xNorm * xNorm
       + fitCoeffs1 m * xNorm + fitCoeffs0 m"

text \<open>
  In the linear fallback the three differences are taken in \<open>int32_t\<close> and then
  widened to \<open>int64_t\<close>; the product of two such values fits 64 bits, so the
  64-bit arithmetic is the one of \<open>int\<close>, with C's truncating division.
\<close>

definition getCapacitanceAt :: "MotorController \<Rightarrow> int32 \<Rightarrow> int32" where
  "getCapacitanceAt m pos =
     (let xRange = of_int32 (maxValue m - minValue m)
      in if isFittingCalibrated m \<and> xRange > 0 then
           let xNorm = (of_int32 pos - of_int32 (minValue m)) / xRange;
               cap = fitPoly m xNorm
           in to_int32 (cap * 100)
         else if sint (maxValue m) \<le> sint (minValue m) then minCap m
         else
           let range = sint (maxCap m - minCap m);
               posRange = sint (maxValue m - minValue m);
               posOffset0 = sint (pos - minValue m);
               posOffset1 = (if posOffset0 < 0 then 0 else posOffset0);
               posOffset2 = (if posOffset1 > posRange then posRange else posOffset1)
           in minCap m + word_of_int ((range * posOffset2) sdiv posRange))"

definition getCapacitance :: "MotorController \<Rightarrow> int32" where
  "getCapacitance m = getCapacitanceAt m (readPos m)"

text \<open>
  The Newton-Raphson loop of \<open>getPositionFromCap\<close>: the first argument counts the
  iterations left (\<open>maxIterations = 20\<close>), \<open>lo\<close> and \<open>hi\<close> are \<open>xNormLower\<close> and
  \<open>xNormUpper\<close>. Both \<open>break\<close>s return the current \<open>xNorm\<close>.
\<close>

fun newtonLoop :: "nat \<Rightarrow> MotorController \<Rightarrow> real \<Rightarrow> real \<Rightarrow> real \<Rightarrow> real \<Rightarrow> real" where
  "newtonLoop 0 m targetCapPf lo hi xNorm = xNorm"
| "newtonLoop (Suc n) m targetCapPf lo hi xNorm =
     (let fx = fitPoly m xNorm - targetCapPf;
          fpx = 3 * fitCoeffs3 m * xNorm * xNorm + 2 * fitCoeffs2 m * xNorm + fitCoeffs1 m
      in if \<bar>fx\<bar> < 1 / 10 then xNorm
         else if \<bar>fpx\<bar> < 1 / 10 ^ 10 then xNorm
         else
           let x1 = xNorm - fx / fpx;
               x2 = (if x1 < lo then lo else x1);
               x3 = (if x2 > hi then hi else x2)
           in newtonLoop n m targetCapPf lo hi x3)"

definition getPositionFromCap :: "MotorController \<Rightarrow> int32 \<Rightarrow> int32" where
  "getPositionFromCap m targetCap =
     (let targetCapPf = of_int32 targetCap / 100;
          xRange = of_int32 (maxValue m - minValue m)
      in if isFittingCalibrated m \<and> xRange > 0 then
           let xNormLower = (of_int32 (lowerLimit m) - of_int32 (minValue m)) / xRange;
               xNormUpper = (of_int32 (upperLimit m) - of_int32 (minValue m)) / xRange;
               xNorm = newtonLoop 20 m targetCapPf xNormLower xNormUpper
                         ((xNormLower + xNormUpper) / 2);
               step = xNorm * xRange + of_int32 (minValue m)
           in to_int32 (step + 1 / 2)
         else if sint (maxCap m) \<le> sint (minCap m) then minValue m
         else
           let posRange = sint (maxValue m - minValue m);
               capRange = sint (maxCap m - minCap m);
               capOffset0 = sint (targetCap - minCap m);
               capOffset1 = (if capOffset0 < 0 then 0 else capOffset0);
               capOffset2 = (if capOffset1 > capRange then capRange else capOffset1)
           in minValue m + word_of_int ((posRange * capOffset2) sdiv capRange))"

subsection \<open>Loading the VSWR and AMS settings\<close>

text \<open>
  The fields of \<open>MatcherInfo\<close> that the two loaders write. \<open>framRead\<close> is outside
  this development: its return value \<open>ret\<close> and the three values it leaves in
  \<open>settings\<close> are arguments. The host output of a loader is the list of lines
  it prints.
\<close>

record MatcherInfo =
  vswrStart :: real
  vswrStop :: real
  vswrRestart :: real
  amsInterval :: int32
  amsTimeout :: int32
  amsLogInterval :: int32

datatype load_out =
    LogReadFailed
  | LogVswr real real real
  | FrameVSW real real real
  | LogAms int32 int32 int32
  | FrameAST int32 int32 int32

definition loadVswrSettings ::
  "MatcherInfo \<Rightarrow> int32 \<Rightarrow> real \<times> real \<times> real \<Rightarrow> int32 \<times> MatcherInfo \<times> load_out list" where
  "loadVswrSettings mi ret settings =
     (case settings of (s0, s1, s2) \<Rightarrow>
       let (mi', lg) =
             (if ret \<noteq> 0 then
                (mi\<lparr>vswrStart := 104 / 100, vswrStop := 102 / 100, vswrRestart := 104 / 100\<rparr>,
                 [LogReadFailed])
              else
                let mi1 = mi\<lparr>vswrStart := (if s0 \<ge> 1 \<and> s0 \<le> 10 then s0 else 104 / 100)\<rparr>;
                    mi2 = mi1\<lparr>vswrStop := (if s1 \<ge> 1 \<and> s1 \<le> 5 then s1 else 102 / 100)\<rparr>;
                    mi3 = mi2\<lparr>vswrRestart := (if s2 \<ge> 1 \<and> s2 \<le> 10 then s2 else 104 / 100)\<rparr>
                in (mi3, [LogVswr (vswrStart mi3) (vswrStop mi3) (vswrRestart mi3)]))
       in (ret, mi', lg @ [FrameVSW (vswrStart mi') (vswrStop mi') (vswrRestart mi')]))"

definition loadAmsSettings ::
  "MatcherInfo \<Rightarrow> int32 \<Rightarrow> int32 \<times> int32 \<times> int32 \<Rightarrow> int32 \<times> MatcherInfo \<times> load_out list" where
  "loadAmsSettings mi ret settings =
     (case settings of (s0, s1, s2) \<Rightarrow>
       let (mi', lg) =
             (if ret \<noteq> 0 then
                (mi\<lparr>amsInterval := 10, amsTimeout := 0, amsLogInterval := 10\<rparr>, [LogReadFailed])
              else
                let mi1 = mi\<lparr>amsInterval :=
                            (if sint s0 \<ge> 1 \<and> sint s0 \<le> 1000 then s0 else 10)\<rparr>;
                    mi2 = mi1\<lparr>amsTimeout :=
                            (if sint s0 \<ge> 0 \<and> sint s1 \<le> 60000 then s1 else 0)\<rparr>;
                    mi3 = mi2\<lparr>amsLogInterval :=
                            (if sint s2 \<ge> 1 \<and> sint s2 \<le> 1000 then s2 else 10)\<rparr>
                in (mi3, [LogAms (amsInterval mi3) (amsTimeout mi3) (amsLogInterval mi3)]))
       in (ret, mi', lg @ [FrameAST (amsInterval mi') (amsTimeout mi') (amsLogInterval mi')]))"

text \<open>
  The ranges and defaults that section 4.D and the claim give for the six
  fields, each field checked against its own range.
\<close>

definition ams_timeout_spec :: "int32 \<Rightarrow> int32" where
  "ams_timeout_spec s1 = (if 0 \<le> sint s1 \<and> sint s1 \<le> 60000 then s1 else 0)"

section \<open>MatchingAlgorithm.hpp\<close>

subsection \<open>Circuit constants (namespace MatchingConst)\<close>

text \<open>
  \<open>PI\<close> is the decimal literal of the source, so every circuit constant is a
  rational number.
\<close>

definition nH :: real where "nH = 1 / 10 ^ 9"
definition pF :: real where "pF = 1 / 10 ^ 12"
definition uH :: real where "uH = 1 / 10 ^ 6"
definition FREQ :: real where "FREQ = 13560000"
definition PI :: real where "PI = 314159265358979323846 / 10 ^ 20"
definition OMEGA :: real where "OMEGA = 2 * PI * FREQ"
definition Lp :: real where "Lp = 36 * nH"
definition Cp :: real where "Cp = (153 / 10) * pF"
definition LB0 :: real where "LB0 = 157 * nH"
definition RB0 :: real where "RB0 = 2 / 10"
definition CB0 :: real where "CB0 = (19 / 10) * pF"
definition RC0 :: real where "RC0 = 2 / 10"
definition LC0 :: real where "LC0 = (103 / 100) * uH"
definition CC0 :: real where "CC0 = 2 * pF"
definition CC1 :: real where "CC1 = (15 / 10) * pF"
definition CD0 :: real where "CD0 = 31 * pF"
definition RE0 :: real where "RE0 = 2 / 10"
definition LE0 :: real where "LE0 = 15 * nH"
definition Z_TARGET :: real where "Z_TARGET = 50"

subsection \<open>calculateVSWR\<close>

definition calculateVSWR_Z0 :: "real \<Rightarrow> real \<Rightarrow> real \<Rightarrow> real" where
  "calculateVSWR_Z0 R X Z0 =
     (let denom = (R + Z0) * (R + Z0) + X * X;
          numer = (R - Z0) * (R - Z0) + X * X
      in if denom < 1 / 10 ^ 12 then 999
         else let gamma = sqrt (numer / denom)
              in if gamma \<ge> 1 then 999 else (1 + gamma) / (1 - gamma))"

text \<open>The default argument \<open>Z0 = 50.0\<close>.\<close>

definition calculateVSWR :: "real \<Rightarrow> real \<Rightarrow> real" where
  "calculateVSWR R X = calculateVSWR_Z0 R X 50"

subsection \<open>The constructor: precomputed members\<close>

text \<open>
  The constructor of \<open>MatchingAlgorithm\<close> takes no argument, so each private
  member \<open>name_\<close> is a constant, written \<open>k_name\<close> here (\<open>w_\<close> is \<open>k_w\<close>). The
  locals of the constructor are the constants without the prefix.
\<close>

definition k_w :: real where "k_w = OMEGA"
definition k_w2 :: real where "k_w2 = k_w * k_w"
definition k_w3 :: real where "k_w3 = k_w2 * k_w"
definition k_w4 :: real where "k_w4 = k_w2 * k_w2"
definition k_w5 :: real where "k_w5 = k_w4 * k_w"
definition k_w6 :: real where "k_w6 = k_w3 * k_w3"

definition Lp2 :: real where "Lp2 = Lp * Lp"
definition Cp2 :: real where "Cp2 = Cp * Cp"
definition CpLpW2 :: real where "CpLpW2 = Cp * Lp * k_w2"
definition Cp2W2 :: real where "Cp2W2 = Cp2 * k_w2"
definition Cp2Lp2W4 :: real where "Cp2Lp2W4 = Cp2 * Lp2 * k_w4"

definition k_denom_A_const :: real where "k_denom_A_const = 1 - 2 * CpLpW2 + Cp2Lp2W4"
definition k_denom_A_Rm2 :: real where "k_denom_A_Rm2 = Cp2W2"
definition k_denom_A_Xm :: real where "k_denom_A_Xm = 2 * Cp * k_w - 2 * Cp2 * Lp * k_w3"
definition k_denom_A_Xm2 :: real where "k_denom_A_Xm2 = Cp2W2"

definition k_XA_const :: real where "k_XA_const = - Lp * k_w + Cp * Lp2 * k_w3"
definition k_XA_Rm2 :: real where "k_XA_Rm2 = Cp * k_w"
definition k_XA_Xm :: real where "k_XA_Xm = 1 - 2 * Cp * Lp * k_w2"
definition k_XA_Xm2 :: real where "k_XA_Xm2 = Cp * k_w"

definition LB02 :: real where "LB02 = LB0 * LB0"
definition CB02 :: real where "CB02 = CB0 * CB0"
definition RB02 :: real where "RB02 = RB0 * RB0"
definition CB0LB0W2 :: real where "CB0LB0W2 = CB0 * LB0 * k_w2"
definition CB02W2_RB02_LB02W2 :: real where
  "CB02W2_RB02_LB02W2 = CB02 * k_w2 * (RB02 + LB02 * k_w2)"
definition k_denomB_const :: real where
  "k_denomB_const = 1 - 2 * CB0LB0W2 + CB02W2_RB02_LB02W2"
definition k_RB_const :: real where "k_RB_const = RB0 / k_denomB_const"
definition k_XB_numer_const :: real where
  "k_XB_numer_const = 1 + CB02W2_RB02_LB02W2 - 2 * CB0 * LB0 * k_w2"
definition k_XB_numer_VVC0 :: real where
  "k_XB_numer_VVC0 = - LB0 * k_w2 + CB0 * RB02 * k_w2 + CB0 * LB02 * k_w4"
definition k_XB_denom_factor :: real where "k_XB_denom_factor = k_w * k_denomB_const"

definition k_E_CD0 :: real where "k_E_CD0 = CD0"
definition k_E_CD02 :: real where "k_E_CD02 = CD0 * CD0"
definition k_E_2CD0 :: real where "k_E_2CD0 = 2 * CD0"
definition k_E_CD0_w :: real where "k_E_CD0_w = CD0 * k_w"
definition k_E_2CD0_w :: real where "k_E_2CD0_w = 2 * CD0 * k_w"
definition k_E_CD02_w :: real where "k_E_CD02_w = k_E_CD02 * k_w"
definition k_E_2CD02_w :: real where "k_E_2CD02_w = 2 * k_E_CD02 * k_w"
definition k_E_CD02_w2 :: real where "k_E_CD02_w2 = k_E_CD02 * k_w2"
definition k_RE0 :: real where "k_RE0 = RE0"
definition k_LE0_w :: real where "k_LE0_w = LE0 * k_w"

definition LC02 :: real where "LC02 = LC0 * LC0"
definition CC02 :: real where "CC02 = CC0 * CC0"
definition CC12 :: real where "CC12 = CC1 * CC1"
definition RC02 :: real where "RC02 = RC0 * RC0"

definition k_D_const :: real where
  "k_D_const = 1 - 2 * CC0 * LC0 * k_w2 - 2 * CC1 * LC0 * k_w2
       + CC02 * RC02 * k_w2 + 2 * CC0 * CC1 * RC02 * k_w2 + CC12 * RC02 * k_w2
       + CC02 * LC02 * k_w4 + 2 * CC0 * CC1 * LC02 * k_w4 + CC12 * LC02 * k_w4"
definition k_D_RC2 :: real where
  "k_D_RC2 = CC12 * k_w2 - 2 * CC0 * CC12 * LC0 * k_w4 + CC02 * CC12 * RC02 * k_w4
       + CC02 * CC12 * LC02 * k_w6"
definition k_D_RC :: real where "k_D_RC = - 2 * CC12 * RC0 * k_w2"
definition k_D_XC :: real where
  "k_D_XC = 2 * CC1 * k_w - 4 * CC0 * CC1 * LC0 * k_w3 - 2 * CC12 * LC0 * k_w3
       + 2 * CC02 * CC1 * RC02 * k_w3 + 2 * CC0 * CC12 * RC02 * k_w3
       + 2 * CC02 * CC1 * LC02 * k_w5 + 2 * CC0 * CC12 * LC02 * k_w5"
definition k_D_XC2 :: real where
  "k_D_XC2 = CC12 * k_w2 - 2 * CC0 * CC12 * LC0 * k_w4
       + CC02 * CC12 * RC02 * k_w4 + CC02 * CC12 * LC02 * k_w6"
definition k_RD_const :: real where "k_RD_const = - RC0"
definition k_RD_RC :: real where
  "k_RD_RC = 1 - 2 * CC0 * LC0 * k_w2 + CC02 * RC02 * k_w2 + CC02 * LC02 * k_w4"
definition k_XD_const :: real where
  "k_XD_const = - LC0 * k_w + CC0 * RC02 * k_w + CC1 * RC02 * k_w
       + CC0 * LC02 * k_w3 + CC1 * LC02 * k_w3"
definition k_XD_RC2 :: real where
  "k_XD_RC2 = CC1 * k_w - 2 * CC0 * CC1 * LC0 * k_w3 + CC02 * CC1 * RC02 * k_w3
       + CC02 * CC1 * LC02 * k_w5"
definition k_XD_RC :: real where "k_XD_RC = - 2 * CC1 * RC0 * k_w"
definition k_XD_XC :: real where
  "k_XD_XC = 1 - 2 * CC0 * LC0 * k_w2 - 2 * CC1 * LC0 * k_w2
       + CC02 * RC02 * k_w2 + 2 * CC0 * CC1 * RC02 * k_w2
       + CC02 * LC02 * k_w4 + 2 * CC0 * CC1 * LC02 * k_w4"
definition k_XD_XC2 :: real where
  "k_XD_XC2 = CC1 * k_w - 2 * CC0 * CC1 * LC0 * k_w3
       + CC02 * CC1 * RC02 * k_w3 + CC02 * CC1 * LC02 * k_w5"

definition Z2 :: real where "Z2 = Z_TARGET * Z_TARGET"
definition denomGoal :: real where
  "denomGoal = 1 + Z2 * Cp2 * k_w2 - 2 * Cp * Lp * k_w2 + Cp2 * Lp2 * k_w4"
definition k_RAGoal :: real where "k_RAGoal = Z_TARGET / denomGoal"
definition k_XAGoal :: real where
  "k_XAGoal = k_w * (Z2 * Cp - Lp + Cp * Lp2 * k_w2) / denomGoal"
definition k_RAGoal2 :: real where "k_RAGoal2 = k_RAGoal * k_RAGoal"
definition k_XAGoal2 :: real where "k_XAGoal2 = k_XAGoal * k_XAGoal"
definition k_RB2 :: real where "k_RB2 = k_RB_const * k_RB_const"

definition RAGoal3 :: real where "RAGoal3 = k_RAGoal * k_RAGoal2"
definition k_disc_const :: real where
  "k_disc_const = RAGoal3 * k_RB_const - k_RAGoal2 * k_RB2 + k_RAGoal * k_RB_const * k_XAGoal2"
definition k_disc_RC_coef :: real where
  "k_disc_RC_coef = RAGoal3 - 3 * k_RAGoal2 * k_RB_const + 2 * k_RAGoal * k_RB2
       + k_RAGoal * k_XAGoal2 - k_RB_const * k_XAGoal2"
definition k_disc_RC2_coef :: real where
  "k_disc_RC2_coef = - k_RAGoal2 + 2 * k_RAGoal * k_RB_const - k_RB2"

subsection \<open>Impedances along the network\<close>

record ImpedancePoints =
  pt_RA :: real
  pt_XA :: real
  pt_RB :: real
  pt_XB :: real
  pt_RC :: real
  pt_XC :: real
  pt_RD :: real
  pt_XD :: real
  pt_RE :: real
  pt_XE :: real
  pt_Rp :: real
  pt_Xp :: real

text \<open>
  \<open>calculateZCFromOutput\<close> returns the struct \<open>ZCFromOutput\<close>, here the pair
  \<open>(RC, XC)\<close>. The functions with two reference parameters return the pair of
  the values they store.
\<close>

definition calculateZCFromOutput :: "real \<Rightarrow> real \<Rightarrow> real \<Rightarrow> real \<times> real" where
  "calculateZCFromOutput Rpm Xpm VVC1_pF =
     (let VVC1 = VVC1_pF * pF;
          wLE0 = k_w * LE0;
          ZE_R = Rpm + RE0;
          ZE_X = Xpm + wLE0;
          XCD0 = - 1 / (k_w * CD0);
          num_R = - ZE_X * XCD0;
          num_X = ZE_R * XCD0;
          den_R = ZE_R;
          den_X = ZE_X + XCD0;
          den_mag2 = den_R * den_R + den_X * den_X
      in if den_mag2 < 1 / 10 ^ 30 then (Rpm, Xpm)
         else
           let ZE_CD0_R = (num_R * den_R + num_X * den_X) / den_mag2;
               ZE_CD0_X = (num_X * den_R - num_R * den_X) / den_mag2;
               XVVC1 = - 1 / (k_w * VVC1);
               ZD_R = ZE_CD0_R;
               ZD_X = ZE_CD0_X + XVVC1;
               XCC1 = - 1 / (k_w * CC1);
               num2_R = - ZD_X * XCC1;
               num2_X = ZD_R * XCC1;
               den2_R = ZD_R;
               den2_X = ZD_X + XCC1;
               den2_mag2 = den2_R * den2_R + den2_X * den2_X
           in if den2_mag2 < 1 / 10 ^ 30 then (Rpm, Xpm)
              else
                let ZD_CC1_R = (num2_R * den2_R + num2_X * den2_X) / den2_mag2;
                    ZD_CC1_X = (num2_X * den2_R - num2_R * den2_X) / den2_mag2;
                    ZLC_R = RC0;
                    ZLC_X = k_w * LC0;
                    XCC0 = - 1 / (k_w * CC0);
                    num3_R = - ZLC_X * XCC0;
                    num3_X = ZLC_R * XCC0;
                    den3_R = ZLC_R;
                    den3_X = ZLC_X + XCC0;
                    den3_mag2 = den3_R * den3_R + den3_X * den3_X
                in if den3_mag2 < 1 / 10 ^ 30 then (Rpm, Xpm)
                   else
                     let ZC0_R = (num3_R * den3_R + num3_X * den3_X) / den3_mag2;
                         ZC0_X = (num3_X * den3_R - num3_R * den3_X) / den3_mag2
                     in (ZD_CC1_R + ZC0_R, ZD_CC1_X + ZC0_X))"

definition calculateZA :: "real \<Rightarrow> real \<Rightarrow> real \<times> real" where
  "calculateZA Rm Xm =
     (let Rm2 = Rm * Rm;
          Xm2 = Xm * Xm;
          denom = k_denom_A_const + k_denom_A_Rm2 * Rm2 + k_denom_A_Xm * Xm + k_denom_A_Xm2 * Xm2
      in (Rm / denom,
          (k_XA_const + k_XA_Rm2 * Rm2 + k_XA_Xm * Xm + k_XA_Xm2 * Xm2) / denom))"

definition calculateZB :: "real \<Rightarrow> real \<times> real" where
  "calculateZB VVC0_pF =
     (let VVC0 = VVC0_pF * pF;
          numer = - (k_XB_numer_const + k_XB_numer_VVC0 * VVC0)
      in (k_RB_const, numer / (VVC0 * k_XB_denom_factor)))"

definition calculateZC :: "real \<Rightarrow> real \<Rightarrow> real \<Rightarrow> real \<Rightarrow> real \<times> real" where
  "calculateZC RA XA RB XB =
     (let RA2 = RA * RA;
          RB2 = RB * RB;
          XA2 = XA * XA;
          XB2 = XB * XB;
          denom = RA2 - 2 * RA * RB + RB2 + XA2 - 2 * XA * XB + XB2
      in if \<bar>denom\<bar> < 1 / 10 ^ 12 then (RA, XA)
         else ((- RA2 * RB + RA * RB2 - RB * XA2 + RA * XB2) / denom,
               (RB2 * XA - RA2 * XB - XA2 * XB + XA * XB2) / denom))"

definition calculateZD :: "real \<Rightarrow> real \<Rightarrow> real \<times> real" where
  "calculateZD RC XC =
     (let RC2 = RC * RC;
          XC2 = XC * XC;
          denom = k_D_const + k_D_RC2 * RC2 + k_D_RC * RC + k_D_XC * XC + k_D_XC2 * XC2
      in if \<bar>denom\<bar> < 1 / 10 ^ 20 then (RC, XC)
         else
           let RD_numer = k_RD_const + k_RD_RC * RC;
               XD_numer = k_XD_const + k_XD_RC2 * RC2 + k_XD_RC * RC + k_XD_XC * XC + k_XD_XC2 * XC2
           in (RD_numer / denom, XD_numer / denom))"

definition calculateZE :: "real \<Rightarrow> real \<Rightarrow> real \<Rightarrow> real \<times> real" where
  "calculateZE RD XD VVC1_pF =
     (let VVC1 = VVC1_pF * pF;
          VVC12 = VVC1 * VVC1;
          RD2 = RD * RD;
          XD2 = XD * XD;
          denomE = k_E_CD02 + k_E_2CD0 * VVC1 + VVC12
                     + k_E_CD02_w2 * RD2 * VVC12
                     + k_E_2CD02_w * VVC1 * XD
                     + k_E_2CD0_w * VVC12 * XD
                     + k_E_CD02_w2 * VVC12 * XD2
      in if \<bar>denomE\<bar> < 1 / 10 ^ 30 then (RD, XD)
         else
           let RE = RD * VVC12 / denomE;
               XE_numer = k_E_CD0 + VVC1
                            + k_E_CD0_w * k_w * RD2 * VVC12
                            + k_E_2CD0_w * VVC1 * XD
                            + VVC12 * k_w * XD
                            + k_E_CD0_w * k_w * VVC12 * XD2
           in (RE, XE_numer / (k_w * denomE)))"

definition calculateZP :: "real \<Rightarrow> real \<Rightarrow> real \<times> real" where
  "calculateZP RE XE = (RE - k_RE0, XE - k_LE0_w)"

definition calculateImpedances :: "real \<Rightarrow> real \<Rightarrow> real \<Rightarrow> real \<Rightarrow> ImpedancePoints" where
  "calculateImpedances Rm Xm VVC0_pF VVC1_pF =
     (let (RA, XA) = calculateZA Rm Xm;
          (RB, XB) = calculateZB VVC0_pF;
          (RC, XC) = calculateZC RA XA RB XB;
          (RD, XD) = calculateZD RC XC;
          (RE, XE) = calculateZE RD XD VVC1_pF;
          (Rp, Xp) = calculateZP RE XE
      in \<lparr> pt_RA = RA, pt_XA = XA, pt_RB = RB, pt_XB = XB, pt_RC = RC, pt_XC = XC,
           pt_RD = RD, pt_XD = XD, pt_RE = RE, pt_XE = XE, pt_Rp = Rp, pt_Xp = Xp \<rparr>)"

subsection \<open>calculateMatchingGoals\<close>

text \<open>
  \<open>MatchingGoals goals;\<close> declares the struct without initialising it. Every
  field except \<open>XDGoal0\<close> and \<open>XDGoal1\<close> is assigned on every path to a
  \<open>return\<close>; these two are assigned only after the discriminant test. They are
  options: \<open>None\<close> is a field that was never assigned, whose content is
  indeterminate.
\<close>

record MatchingGoals =
  VVC0Goal0 :: real
  VVC1Goal0 :: real
  step0Goal0 :: int32
  step1Goal0 :: int32
  valid0 :: bool
  VVC0Goal1 :: real
  VVC1Goal1 :: real
  step0Goal1 :: int32
  step1Goal1 :: int32
  valid1 :: bool
  RAGoal :: real
  XAGoal :: real
  XBGoal0 :: real
  XBGoal1 :: real
  XDGoal0 :: "real option"
  XDGoal1 :: "real option"
  RC_calculated :: real
  XC_calculated :: real
  XD_calculated :: real

text \<open>
  The runtime variables \<open>RC\<close>, \<open>XC\<close>, \<open>XD\<close> after the block that may replace the
  input-derived values by the ones walked back from the output sensor.
\<close>

definition runtime_RC_XC_XD ::
  "ImpedancePoints \<Rightarrow> real \<Rightarrow> real \<Rightarrow> real \<Rightarrow> bool \<Rightarrow> real \<times> real \<times> real" where
  "runtime_RC_XC_XD pts VVC1_pF Rpm Xpm useOutputForRC =
     (if useOutputForRC \<and> (Rpm \<noteq> 0 \<or> Xpm \<noteq> 0) then
        let (zcOut_RC, zcOut_XC) = calculateZCFromOutput Rpm Xpm VVC1_pF;
            (RD_out, XD_out) = calculateZD zcOut_RC zcOut_XC
        in (zcOut_RC, zcOut_XC, XD_out)
      else (pt_RC pts, pt_XC pts, pt_XD pts))"

definition discriminant_of :: "real \<Rightarrow> real" where
  "discriminant_of RC =
     4 * (k_disc_const + k_disc_RC_coef * RC + k_disc_RC2_coef * (RC * RC))"

text \<open>The lambda \<open>calcXDFromXC\<close>, with its captured \<open>RC\<close> as first argument.\<close>

definition calcXDFromXC :: "real \<Rightarrow> real \<Rightarrow> real" where
  "calcXDFromXC RC XC_in =
     (let RC2 = RC * RC;
          XC2_in = XC_in * XC_in;
          denom = k_D_const + k_D_RC2 * RC2 + k_D_RC * RC + k_D_XC * XC_in + k_D_XC2 * XC2_in;
          XD_numer = k_XD_const + k_XD_RC2 * RC2 + k_XD_RC * RC + k_XD_XC * XC_in
                       + k_XD_XC2 * XC2_in
      in if \<bar>denom\<bar> < 1 / 10 ^ 20 then XC_in else XD_numer / denom)"

text \<open>The conversion of a capacitance goal to a step target; \<open>None\<close> is \<open>nullptr\<close>.\<close>

definition stepGoal :: "MotorController option \<Rightarrow> real \<Rightarrow> int32" where
  "stepGoal mo VVCGoal =
     (case mo of None \<Rightarrow> 0
      | Some m \<Rightarrow> getPositionFromCap m (to_int32 (VVCGoal * 100)))"

text \<open>
  The body of \<open>calculateMatchingGoals\<close> is cut at its blocks. The struct returned
  by the early \<open>return\<close> of the branch \<open>discriminant < 0\<close>:
\<close>

definition goalsNoSolution :: "real \<Rightarrow> real \<Rightarrow> real \<Rightarrow> MatchingGoals" where
  "goalsNoSolution RC XC XD =
     \<lparr> VVC0Goal0 = 0, VVC1Goal0 = 0, step0Goal0 = 0, step1Goal0 = 0, valid0 = False,
       VVC0Goal1 = 0, VVC1Goal1 = 0, step0Goal1 = 0, step1Goal1 = 0, valid1 = False,
       RAGoal = k_RAGoal, XAGoal = k_XAGoal, XBGoal0 = 0, XBGoal1 = 0,
       XDGoal0 = None, XDGoal1 = None,
       RC_calculated = RC, XC_calculated = XC, XD_calculated = XD \<rparr>"

text \<open>The block "XBGoal calculation": \<open>(XBGoal0, XBGoal1)\<close>.\<close>

definition XBGoals :: "real \<Rightarrow> real \<Rightarrow> real \<times> real" where
  "XBGoals RC sqrtD =
     (let denom_XB = 2 * (k_RAGoal - RC)
      in if \<bar>denom_XB\<bar> < 1 / 10 ^ 12 then (0, 0)
         else ((- 2 * RC * k_XAGoal - sqrtD) / denom_XB,
               (- 2 * RC * k_XAGoal + sqrtD) / denom_XB))"

text \<open>
  The block "VVC0Goal calculation" for one solution: the goal and the flag
  \<open>valid\<close>, which was \<open>false\<close> before.
\<close>

definition VVC0GoalOf :: "real \<Rightarrow> real \<Rightarrow> real \<Rightarrow> real \<times> bool" where
  "VVC0GoalOf VVC0 XB xbGoal =
     (let denom_VVC0 = 1 + VVC0 * k_w * XB - VVC0 * k_w * xbGoal
      in if \<bar>denom_VVC0\<bar> > 1 / 10 ^ 20
         then ((VVC0 / denom_VVC0) / pF, (VVC0 / denom_VVC0) / pF > 0)
         else (0, False))"

text \<open>The block "XCGoal calculation": \<open>(XCGoal0, XCGoal1)\<close>.\<close>

definition XCGoals :: "real \<Rightarrow> real \<times> real" where
  "XCGoals sqrtD =
     (let denom_XC = k_RAGoal - k_RB_const
      in if \<bar>denom_XC\<bar> > 1 / 10 ^ 12 then
           let sqrtD_XC = sqrtD / 2
           in ((- k_RB_const * k_XAGoal + sqrtD_XC) / denom_XC,
               (- k_RB_const * k_XAGoal - sqrtD_XC) / denom_XC)
         else (0, 0))"

text \<open>
  The block "VVC1Goal calculation" for one solution: the goal and the flag
  \<open>valid\<close> after the block, from the flag before it.
\<close>

definition VVC1GoalOf :: "real \<Rightarrow> real \<Rightarrow> real \<Rightarrow> bool \<Rightarrow> real \<times> bool" where
  "VVC1GoalOf VVC1 XD xdGoal valid =
     (let denom_VVC1 = 1 + VVC1 * k_w * XD - VVC1 * k_w * xdGoal
      in if \<bar>denom_VVC1\<bar> > 1 / 10 ^ 20
         then ((VVC1 / denom_VVC1) / pF,
               (if (VVC1 / denom_VVC1) / pF < 0 then False else valid))
         else (0, False))"

text \<open>The path after the discriminant test, down to the final \<open>return\<close>.\<close>

definition goalsSolved ::
  "real \<Rightarrow> real \<Rightarrow> real \<Rightarrow> real \<Rightarrow> real \<Rightarrow> real \<Rightarrow> real
     \<Rightarrow> MotorController option \<Rightarrow> MotorController option \<Rightarrow> MatchingGoals" where
  "goalsSolved RC XC XD XB discriminant VVC0_pF VVC1_pF m0 m1 =
     (let sqrtD = sqrt discriminant;
          xb = XBGoals RC sqrtD;
          VVC0 = VVC0_pF * pF;
          VVC1 = VVC1_pF * pF;
          g00 = VVC0GoalOf VVC0 XB (fst xb);
          g01 = VVC0GoalOf VVC0 XB (snd xb);
          xc = XCGoals sqrtD;
          xdGoal0 = calcXDFromXC RC (fst xc);
          xdGoal1 = calcXDFromXC RC (snd xc);
          g10 = VVC1GoalOf VVC1 XD xdGoal0 (snd g00);
          g11 = VVC1GoalOf VVC1 XD xdGoal1 (snd g01)
      in \<lparr> VVC0Goal0 = fst g00, VVC1Goal0 = fst g10,
           step0Goal0 = stepGoal m0 (fst g00), step1Goal0 = stepGoal m1 (fst g10),
           valid0 = snd g10,
           VVC0Goal1 = fst g01, VVC1Goal1 = fst g11,
           step0Goal1 = stepGoal m0 (fst g01), step1Goal1 = stepGoal m1 (fst g11),
           valid1 = snd g11,
           RAGoal = k_RAGoal, XAGoal = k_XAGoal, XBGoal0 = fst xb, XBGoal1 = snd xb,
           XDGoal0 = Some xdGoal0, XDGoal1 = Some xdGoal1,
           RC_calculated = RC, XC_calculated = XC, XD_calculated = XD \<rparr>)"

definition calculateMatchingGoals ::
  "real \<Rightarrow> real \<Rightarrow> real \<Rightarrow> real \<Rightarrow> MotorController option \<Rightarrow> MotorController option
     \<Rightarrow> real \<Rightarrow> real \<Rightarrow> bool \<Rightarrow> MatchingGoals" where
  "calculateMatchingGoals Rm Xm VVC0_pF VVC1_pF m0 m1 Rpm Xpm useOutputForRC =
     (let pts = calculateImpedances Rm Xm VVC0_pF VVC1_pF;
          rt = runtime_RC_XC_XD pts VVC1_pF Rpm Xpm useOutputForRC;
          RC = fst rt;
          XC = fst (snd rt);
          XD = snd (snd rt);
          XB = pt_XB pts;
          discriminant = discriminant_of RC
      in if discriminant < 0 then goalsNoSolution RC XC XD
         else goalsSolved RC XC XD XB discriminant VVC0_pF VVC1_pF m0 m1)"

section \<open>RFSensor.hpp: averaged impedance\<close>

text \<open>\<open>ComplexF\<close> is the pair (real part, imaginary part).\<close>

type_synonym ComplexF = "real \<times> real"

definition multiply :: "ComplexF \<Rightarrow> ComplexF \<Rightarrow> ComplexF" where
  "multiply a b = (fst a * fst b - snd a * snd b, fst a * snd b + snd a * fst b)"

text \<open>
  \<open>divideSafe\<close>, used by \<open>readImpedance\<close> and \<open>readImpedanceHeld\<close>: a squared
  magnitude below \<open>eps\<close> is replaced by \<open>eps\<close> before the division.
\<close>

definition divideSafe :: "ComplexF \<Rightarrow> ComplexF \<Rightarrow> ComplexF" where
  "divideSafe a b =
     (let eps = 1 / 10 ^ 12;
          den0 = fst b * fst b + snd b * snd b;
          den = (if den0 < eps then eps else den0);
          inv = 1 / den
      in ((fst a * fst b + snd a * snd b) * inv, (snd a * fst b - fst a * snd b) * inv))"

text \<open>
  The six fields of the result are floats that may be NaN or infinite; \<open>None\<close>
  is such a value, \<open>Some x\<close> the finite value \<open>x\<close>.
\<close>

record AveragedImpedanceResults =
  voltageMagnitude :: "real option"
  currentMagnitude :: "real option"
  impedanceMagnitude :: "real option"
  impedancePhaseDeg :: "real option"
  resistanceR :: "real option"
  reactanceX :: "real option"

text \<open>
  The sensor: its length \<open>fftLength\<close>, the stored average count, the
  calibration, the gate register base, and the four memory-mapped buffers as
  functions from the index to the value held there. The status register
  \<open>gpio[2]\<close> of the gate is written by the fabric; \<open>gate_status k\<close> is the value
  that the \<open>k\<close>-th read of one call returns.
\<close>

record RFSensor =
  fftLength :: int
  avgCount_member :: int
  voltageGain :: real
  currentGain :: real
  phaseDiffRad :: real
  gate_gpio_base :: u32
  bram_v_re :: "int \<Rightarrow> real"
  bram_v_im :: "int \<Rightarrow> real"
  bram_i_re :: "int \<Rightarrow> real"
  bram_i_im :: "int \<Rightarrow> real"
  gate_status :: "nat \<Rightarrow> u32"

text \<open>
  \<open>checkFftHoldStatus\<close>: the status word read and the old content of \<open>*out_index\<close>
  give the flag and the new content.
\<close>

definition checkFftHoldStatus :: "u32 \<Rightarrow> u32 \<Rightarrow> u32 \<Rightarrow> bool \<times> u32" where
  "checkFftHoldStatus base status old_index =
     (if base = 0 then (False, old_index)
      else (and status 0x80000000 \<noteq> 0, and status 0x7FFFFFFF))"

text \<open>
  The polling loop \<open>while (timeout-- > 0)\<close>: the first argument is the number of
  rounds left, \<open>k\<close> counts the reads of the status register so far.
\<close>

fun pollHold ::
  "nat \<Rightarrow> u32 \<Rightarrow> (nat \<Rightarrow> u32) \<Rightarrow> nat \<Rightarrow> (bool \<times> u32) \<times> (bool \<times> u32)
     \<Rightarrow> (bool \<times> u32) \<times> (bool \<times> u32)" where
  "pollHold 0 base rd k st = st"
| "pollHold (Suc t) base rd k st =
     (let v = checkFftHoldStatus base (rd k) (snd (fst st));
          i = checkFftHoldStatus base (rd (k + 1)) (snd (snd st))
      in if fst v \<and> fst i then (v, i) else pollHold t base rd (k + 2) (v, i))"

text \<open>
  The accumulation loop \<open>for (idx = 0; idx < avgCount; ++idx)\<close>, run for the
  indices of the list; the accumulator is
  \<open>(sum_vmagSq, sum_imagSq, sum_cross_re, sum_cross_im)\<close>.
\<close>

definition accumulateStep ::
  "RFSensor \<Rightarrow> int \<Rightarrow> int \<Rightarrow> int \<Rightarrow> real \<times> real \<times> real \<times> real \<Rightarrow> real \<times> real \<times> real \<times> real" where
  "accumulateStep s start_addr_v start_addr_i idx acc =
     (case acc of (sum_vmagSq, sum_imagSq, sum_cross_re, sum_cross_im) \<Rightarrow>
       let bram_addr_v = (start_addr_v + idx) mod fftLength s;
           bram_addr_i = (start_addr_i + idx) mod fftLength s;
           v_raw = (bram_v_re s bram_addr_v, bram_v_im s bram_addr_v);
           i_raw = (bram_i_re s bram_addr_i, bram_i_im s bram_addr_i);
           vmagSq = fst v_raw * fst v_raw + snd v_raw * snd v_raw;
           imagSq = fst i_raw * fst i_raw + snd i_raw * snd i_raw;
           i_conj = (fst i_raw, - snd i_raw);
           cross = multiply v_raw i_conj
       in (sum_vmagSq + vmagSq, sum_imagSq + imagSq,
           sum_cross_re + fst cross, sum_cross_im + snd cross))"

fun accumulate ::
  "RFSensor \<Rightarrow> int \<Rightarrow> int \<Rightarrow> int list \<Rightarrow> real \<times> real \<times> real \<times> real \<Rightarrow> real \<times> real \<times> real \<times> real" where
  "accumulate s sv si [] acc = acc"
| "accumulate s sv si (idx # rest) acc = accumulate s sv si rest (accumulateStep s sv si idx acc)"

text \<open>C's \<open>atan2(y, x)\<close>, with \<open>atan2(0, 0) = 0\<close>.\<close>

definition atan2 :: "real \<Rightarrow> real \<Rightarrow> real" where
  "atan2 y x =
     (if x > 0 then arctan (y / x)
      else if x < 0 then (if y \<ge> 0 then arctan (y / x) + pi else arctan (y / x) - pi)
      else if y > 0 then pi / 2 else if y < 0 then - (pi / 2) else 0)"

text \<open>\<open>sqrt\<close> of a negative number is NaN.\<close>

definition fsqrt :: "real \<Rightarrow> real option" where
  "fsqrt x = (if x < 0 then None else Some (sqrt x))"

definition calculateAveragedImpedance :: "RFSensor \<Rightarrow> int \<Rightarrow> AveragedImpedanceResults" where
  "calculateAveragedImpedance s avgCount_arg =
     (let result0 = \<lparr> voltageMagnitude = Some 0, currentMagnitude = Some 0,
                       impedanceMagnitude = Some 0, impedancePhaseDeg = Some 0,
                       resistanceR = Some 0, reactanceX = Some 0 \<rparr>;
          avgCount0 = (if avgCount_arg = - 1 then avgCount_member s else avgCount_arg);
          avgCount1 = (if avgCount0 \<le> 0 then 1 else avgCount0);
          avgCount = (if avgCount1 > fftLength s then fftLength s else avgCount1);
          ((hold_ok_v, hold_index_v), (hold_ok_i, hold_index_i)) =
             pollHold 100 (gate_gpio_base s) (gate_status s) 0 ((False, 0), (False, 0))
      in if \<not> hold_ok_v \<or> \<not> hold_ok_i then result0
         else
           let kRadToDeg = 180 / (314159265358979323846 / 10 ^ 20);
               start_addr_v = (sint hold_index_v - avgCount + fftLength s) mod fftLength s;
               start_addr_i = (sint hold_index_i - avgCount + fftLength s) mod fftLength s;
               (sum_vmagSq, sum_imagSq, sum_cross_re, sum_cross_im) =
                  accumulate s start_addr_v start_addr_i [0 .. avgCount - 1] (0, 0, 0, 0);
               inv_count = 1 / real_of_int avgCount;
               fftNorm = 1 / real_of_int (fftLength s);
               avg_vmagSq = sum_vmagSq * inv_count;
               avg_imagSq = sum_imagSq * inv_count;
               impedance_mag_sq =
                  fdiv (avg_vmagSq * voltageGain s * voltageGain s)
                       (avg_imagSq * currentGain s * currentGain s);
               impMag = Option.bind impedance_mag_sq fsqrt;
               avg_cross_re = sum_cross_re * inv_count * voltageGain s * currentGain s;
               avg_cross_im = sum_cross_im * inv_count * voltageGain s * currentGain s;
               phaseDeg = (atan2 avg_cross_im avg_cross_re - phaseDiffRad s) * kRadToDeg;
               kDegToRad = (314159265358979323846 / 10 ^ 20) / 180;
               phaseRad = phaseDeg * kDegToRad
           in \<lparr> voltageMagnitude =
                  map_option (\<lambda>r. r * fftNorm * voltageGain s) (fsqrt avg_vmagSq),
                currentMagnitude =
                  map_option (\<lambda>r. r * fftNorm * currentGain s) (fsqrt avg_imagSq),
                impedanceMagnitude = impMag,
                impedancePhaseDeg = Some phaseDeg,
                resistanceR = map_option (\<lambda>z. z * cos phaseRad) impMag,
                reactanceX = map_option (\<lambda>z. z * sin phaseRad) impMag \<rparr>)"

text \<open>Section 8 asks that every field of a sample is a finite number.\<close>

definition all_finite :: "AveragedImpedanceResults \<Rightarrow> bool" where
  "all_finite r =
     (voltageMagnitude r \<noteq> None \<and> currentMagnitude r \<noteq> None \<and> impedanceMagnitude r \<noteq> None
      \<and> impedancePhaseDeg r \<noteq> None \<and> resistanceR r \<noteq> None \<and> reactanceX r \<noteq> None)"

section \<open>DebugMode.hpp: the auto-match state machine\<close>

text \<open>
  The members of \<open>DebugMode\<close> that the AMS reads or writes. The three pointers
  \<open>iSensor_\<close>, \<open>oSensor_\<close>, \<open>mBoard_\<close> are the flags that say whether they are
  non-null; the two motors and the matcher information of the board are held
  in the state. \<open>amsDebugCounter\<close> is the \<open>static\<close> local of \<open>handleStreaming\<close>.
\<close>

record DebugMode =
  iSensor_present :: bool
  oSensor_present :: bool
  mBoard_present :: bool
  M1 :: MotorController
  M2 :: MotorController
  matcherInfo :: MatcherInfo
  amsEnabled :: bool
  amsMatching :: bool
  amsInterval_m :: int32
  amsTimeout_m :: int32
  amsStartTime :: u32
  lastAmsTime :: u32
  amsVerbose :: bool
  amsLogInterval_m :: int32
  amsLogCounter :: int32
  loopCounter :: u32
  amsDebugCounter :: u32

text \<open>The member initialisers of the constructor.\<close>

definition DebugMode_init ::
  "bool \<Rightarrow> bool \<Rightarrow> bool \<Rightarrow> MotorController \<Rightarrow> MotorController \<Rightarrow> MatcherInfo \<Rightarrow> DebugMode" where
  "DebugMode_init iS oS mB m1 m2 mi =
     \<lparr> iSensor_present = iS, oSensor_present = oS, mBoard_present = mB,
       M1 = m1, M2 = m2, matcherInfo = mi,
       amsEnabled = False, amsMatching = False, amsInterval_m = 10, amsTimeout_m = 5000,
       amsStartTime = 0, lastAmsTime = 0, amsVerbose = True,
       amsLogInterval_m = 1, amsLogCounter = 0, loopCounter = 0, amsDebugCounter = 0 \<rparr>"

text \<open>
  A sensor sample whose fields are finite numbers, as the AMS reads it from
  \<open>calculateAveragedImpedance\<close>.
\<close>

record ImpedanceSample =
  smp_R :: real
  smp_X :: real
  smp_V :: real
  smp_I :: real
  smp_phase :: real

text \<open>
  What the AMS sends to the host: the protocol frames (\<open>Frame...\<close>) and the
  debug and log lines.
\<close>

datatype ams_out =
    DbgLoop bool u32 int32
  | FrameTimeout u32
  | FrameAck string string
  | FrameZ bool ImpedanceSample
  | DbgVswr bool real real real
  | FrameMatched real
  | DbgGoalValid bool bool
  | MotorLines "motor_log list"
  | FrameRun int real int32 int32
  | DbgNoValidGoal
  | FrameRestart real
  | LogStopped
  | LogError
  | LogStarted int32 int32 int32 real real u32

fun is_frame :: "ams_out \<Rightarrow> bool" where
  "is_frame (FrameTimeout e) = True"
| "is_frame (FrameAck c st) = True"
| "is_frame (FrameZ b z) = True"
| "is_frame (FrameMatched v) = True"
| "is_frame (FrameRun g v a b) = True"
| "is_frame (FrameRestart v) = True"
| "is_frame other = False"

text \<open>Step 5 of the matching branch: the goals from the current capacitances.\<close>

definition amsGoals :: "DebugMode \<Rightarrow> ImpedanceSample \<Rightarrow> ImpedanceSample \<Rightarrow> real \<Rightarrow> MatchingGoals" where
  "amsGoals st iRes oRes vswr =
     (let Rm = smp_R iRes; Xm = smp_X iRes; Rpm = smp_R oRes; Xpm = smp_X oRes;
          VVC0_pF = of_int32 (getCapacitance (M1 st)) / 100;
          VVC1_pF = of_int32 (getCapacitance (M2 st)) / 100;
          useOutputForRC = (vswr > 2)
      in calculateMatchingGoals Rm Xm VVC0_pF VVC1_pF (Some (M1 st)) (Some (M2 st))
           Rpm Xpm useOutputForRC)"

text \<open>Step 6: a goal counts when its flag is set and both capacitances are in band.\<close>

definition goal_in_band :: "DebugMode \<Rightarrow> bool \<Rightarrow> real \<Rightarrow> real \<Rightarrow> bool" where
  "goal_in_band st valid vvc0Goal vvc1Goal =
     (let cap0Goal = to_int32 (vvc0Goal * 100);
          cap1Goal = to_int32 (vvc1Goal * 100)
      in valid
         \<and> sint cap0Goal \<ge> sint (minCap (M1 st)) \<and> sint cap0Goal \<le> sint (maxCap (M1 st))
         \<and> sint cap1Goal \<ge> sint (minCap (M2 st)) \<and> sint cap1Goal \<le> sint (maxCap (M2 st)))"

text \<open>
  The matching branch after the stop test: steps 4 to 7. It returns the state
  with the motors after the two \<open>RunMotor\<close> calls, and the output.
\<close>

definition amsMatchStep ::
  "DebugMode \<Rightarrow> bool \<Rightarrow> ImpedanceSample \<Rightarrow> ImpedanceSample \<Rightarrow> real \<Rightarrow> DebugMode \<times> ams_out list" where
  "amsMatchStep st shouldLog iRes oRes vswr =
     (let goals = amsGoals st iRes oRes vswr;
          goal0_valid = goal_in_band st (valid0 goals) (VVC0Goal0 goals) (VVC1Goal0 goals);
          goal1_valid = goal_in_band st (valid1 goals) (VVC0Goal1 goals) (VVC1Goal1 goals);
          out3 = (if shouldLog then [DbgGoalValid goal0_valid goal1_valid] else []);
          (selectedGoal, targetStep0, targetStep1) =
             (if goal0_valid then (0, step0Goal0 goals, step1Goal0 goals)
              else if goal1_valid then (1, step0Goal1 goals, step1Goal1 goals)
              else (- 1, 0, 0))
      in if selectedGoal \<ge> (0::int) then
           let (r1, m1', lines1) = RunMotor (M1 st) targetStep0 True 0;
               (r2, m2', lines2) = RunMotor (M2 st) targetStep1 True 0
           in (st\<lparr>M1 := m1', M2 := m2'\<rparr>,
               out3 @ [MotorLines lines1, MotorLines lines2]
                 @ (if shouldLog then [FrameRun selectedGoal vswr targetStep0 targetStep1] else []))
         else (st, out3 @ (if shouldLog then [DbgNoValidGoal] else [])))"

text \<open>
  \<open>handleStreaming\<close>: the counter of the loop, then the AMS block. The five
  stream blocks that come first in the source write their own time stamps and
  the host output only and are left out. \<open>iRes\<close> and \<open>oRes\<close> are the samples
  that the two sensors return if this call reads them.
\<close>

definition handleStreaming ::
  "DebugMode \<Rightarrow> ImpedanceSample \<Rightarrow> ImpedanceSample \<Rightarrow> DebugMode \<times> ams_out list" where
  "handleStreaming st0 iRes oRes =
     (let st1 = st0\<lparr>loopCounter := loopCounter st0 + 1\<rparr>;
          currentTime = loopCounter st1 * 10
      in if amsEnabled st1 \<and> iSensor_present st1 \<and> oSensor_present st1 \<and> mBoard_present st1 then
           let elapsedTotal = currentTime - amsStartTime st1;
               st2 = st1\<lparr>amsDebugCounter := amsDebugCounter st1 + 1\<rparr>;
               showDebug = (amsVerbose st2 \<and> uint (amsDebugCounter st2) mod 100 = 1);
               out0 = (if showDebug
                       then [DbgLoop (amsMatching st2) elapsedTotal (amsTimeout_m st2)] else [])
           in if sint (amsTimeout_m st2) > 0 \<and> uint elapsedTotal \<ge> uint (amsTimeout_m st2) then
                (st2\<lparr>amsEnabled := False, amsMatching := False, amsDebugCounter := 0\<rparr>,
                 out0 @ (if amsVerbose st2 then [FrameTimeout elapsedTotal] else [])
                   @ [FrameAck ''ams'' ''TIMEOUT''])
              else
                let elapsedMs = currentTime - lastAmsTime st2
                in if uint elapsedMs \<ge> uint (amsInterval_m st2) then
                     let st3 = st2\<lparr>lastAmsTime := currentTime,
                                    amsLogCounter := amsLogCounter st2 + 1\<rparr>;
                         shouldLog = (amsVerbose st3
                                        \<and> sint (amsLogCounter st3) \<ge> sint (amsLogInterval_m st3));
                         st4 = (if shouldLog then st3\<lparr>amsLogCounter := 0\<rparr> else st3);
                         out1 = (if shouldLog then [FrameZ True iRes, FrameZ False oRes] else []);
                         vswr = calculateVSWR (smp_R iRes) (smp_X iRes);
                         out2 = (if shouldLog
                                 then [DbgVswr (amsMatching st4) vswr (vswrStop (matcherInfo st4))
                                         (vswrRestart (matcherInfo st4))]
                                 else [])
                     in if amsMatching st4 then
                          if vswr \<le> vswrStop (matcherInfo st4) then
                            (st4\<lparr>amsMatching := False\<rparr>,
                             out0 @ out1 @ out2
                               @ (if amsVerbose st4 then [FrameMatched vswr] else []))
                          else
                            let (st5, out3) = amsMatchStep st4 shouldLog iRes oRes vswr
                            in (st5, out0 @ out1 @ out2 @ out3)
                        else if vswr \<ge> vswrRestart (matcherInfo st4) then
                          (st4\<lparr>amsMatching := True\<rparr>,
                           out0 @ out1 @ out2
                             @ (if amsVerbose st4 then [FrameRestart vswr] else []))
                        else (st4, out0 @ out1 @ out2)
                   else (st2, out0)
         else (st1, []))"

text \<open>
  The command \<open>ams\<close>. \<open>AmsStop\<close> is \<open>ams stop\<close>; \<open>AmsStart args\<close> is any other
  command line, \<open>args\<close> being the values that \<open>atoi\<close> returns for \<open>argv[1]\<close>,
  \<open>argv[2]\<close>, ... (so \<open>argc = 1 + length args\<close>).
\<close>

datatype ams_command = AmsStop | AmsStart "int32 list"

definition handleAmsCommand :: "DebugMode \<Rightarrow> ams_command \<Rightarrow> DebugMode \<times> ams_out list" where
  "handleAmsCommand st cmd =
     (case cmd of
        AmsStop \<Rightarrow>
          (st\<lparr>amsEnabled := False, amsMatching := False\<rparr>, [LogStopped, FrameAck ''ams'' ''STOP''])
      | AmsStart args \<Rightarrow>
          if \<not> iSensor_present st \<or> \<not> oSensor_present st \<or> \<not> mBoard_present st then
            (st, [LogError, FrameAck ''ams'' ''ERROR''])
          else
            let argc = 1 + length args;
                st1 = (if argc \<ge> 2 then
                         let a = args ! 0;
                             a1 = (if sint a < 1 then 1 else a);
                             a2 = (if sint a1 > 1000 then 1000 else a1)
                         in st\<lparr>amsInterval_m := a2\<rparr>
                       else st);
                st2 = (if argc \<ge> 3 then
                         let t = args ! 1;
                             t1 = (if t \<noteq> 0 \<and> sint t < 100 then 100 else t);
                             t2 = (if sint t1 > 60000 then 60000 else t1)
                         in st1\<lparr>amsTimeout_m := t2\<rparr>
                       else st1);
                st3 = (if argc \<ge> 4 then
                         let l = args ! 2;
                             l1 = (if sint l < 1 then 1 else l);
                             l2 = (if sint l1 > 1000 then 1000 else l1)
                         in st2\<lparr>amsLogInterval_m := l2\<rparr>
                       else st2\<lparr>amsLogInterval_m := 1\<rparr>);
                currentTime = loopCounter st3 * 10;
                st4 = st3\<lparr>amsEnabled := True, amsMatching := True, amsVerbose := True,
                          amsLogCounter := 0, amsStartTime := currentTime,
                          lastAmsTime := currentTime\<rparr>
            in (st4,
                [LogStarted (amsInterval_m st4) (amsTimeout_m st4) (amsLogInterval_m st4)
                   (vswrStop (matcherInfo st4)) (vswrRestart (matcherInfo st4)) (loopCounter st4),
                 FrameAck ''ams'' ''START'']))"

text \<open>
  The states of a run: the constructed object, then any sequence of loop
  iterations and \<open>ams\<close> commands. The sensors, the motors' registers and the
  matcher information change outside the AMS, so a step may start from any
  content of these.
\<close>

inductive reachable :: "DebugMode \<Rightarrow> bool" where
  init: "reachable (DebugMode_init iS oS mB m1 m2 mi)"
| tick: "reachable st \<Longrightarrow> reachable (fst (handleStreaming st iRes oRes))"
| command: "reachable st \<Longrightarrow> reachable (fst (handleAmsCommand st cmd))"
| environment: "reachable st \<Longrightarrow> reachable (st\<lparr>M1 := m1, M2 := m2, matcherInfo := mi\<rparr>)"

text \<open>
  The spec's words for the clamp of section 4.B: the value of the interval
  \<open>[lower, upper]\<close> nearest to the target.
\<close>

definition clamp_spec :: "int \<Rightarrow> int \<Rightarrow> int \<Rightarrow> int" where
  "clamp_spec target lower upper = max lower (min upper target)"

section \<open>Properties named by the specification\<close>


text \<open>
  The elapsed time \<open>now - start_time\<close> that the next call of \<open>handleStreaming\<close>
  computes, in ms.
\<close>

definition elapsedAtTick :: "DebugMode \<Rightarrow> u32" where
  "elapsedAtTick st = (loopCounter st + 1) * 10 - amsStartTime st"

text \<open>The invariant of the AMS members that the reachable states keep.\<close>

definition ams_inv :: "DebugMode \<Rightarrow> bool" where
  "ams_inv st \<longleftrightarrow>
     amsVerbose st \<and> (amsMatching st \<longrightarrow> amsEnabled st)
     \<and> (amsEnabled st \<longrightarrow> iSensor_present st \<and> oSensor_present st \<and> mBoard_present st)"

section \<open>Concrete inputs\<close>

text \<open>
  A motor as the constructor leaves it, with both register blocks mapped: the
  limits are \<open>[0, 64000]\<close>, the soft window is \<open>[4000, 60000]\<close>, the band is
  \<open>[0, 100000]\<close> and the fit is not calibrated.
\<close>

definition motor_ready :: MotorController where
  "motor_ready = snd (initializeGpio (MotorController_init 0 0) 0x41200000 0x41210000)"


text \<open>
  The goals for the reading \<open>Rm = 100\<close>, \<open>Xm = 0\<close> at \<open>VVC0 = VVC1 = 50 pF\<close>, with
  both motors given and no output-sensor reading.
\<close>

definition reading_goals :: MatchingGoals where
  "reading_goals =
     calculateMatchingGoals 100 0 50 50 (Some motor_ready) (Some motor_ready) 0 0 False"

text \<open>
  A sensor without RF signal: the hold is acknowledged at write index 0 on the
  first poll and all four buffers hold 0.
\<close>

definition sensor_silent :: RFSensor where
  "sensor_silent = \<lparr> fftLength = 1024, avgCount_member = 16,
       voltageGain = 1, currentGain = 1, phaseDiffRad = 0,
       gate_gpio_base = 0x41220000,
       bram_v_re = (\<lambda>k. 0), bram_v_im = (\<lambda>k. 0),
       bram_i_re = (\<lambda>k. 0), bram_i_im = (\<lambda>k. 0),
       gate_status = (\<lambda>k. 0x80000000) \<rparr>"

text \<open>
  A run of the AMS: the defaults of the matcher information, the command
  \<open>ams 1000 100 1\<close> (interval 1000 ms, timeout 100 ms) on the fresh object, and
  then loop iterations with a matched sample.
\<close>

definition matcher_defaults :: MatcherInfo where
  "matcher_defaults = \<lparr> vswrStart = 104 / 100, vswrStop = 102 / 100, vswrRestart = 104 / 100,
       amsInterval = 10, amsTimeout = 0, amsLogInterval = 10 \<rparr>"

definition sample_matched :: ImpedanceSample where
  "sample_matched = \<lparr> smp_R = 50, smp_X = 0, smp_V = 1, smp_I = 1 / 50, smp_phase = 0 \<rparr>"

definition ams_started :: DebugMode where
  "ams_started = fst (handleAmsCommand
      (DebugMode_init True True True motor_ready motor_ready matcher_defaults)
      (AmsStart [1000, 100, 1]))"

fun run_ticks :: "nat \<Rightarrow> DebugMode \<Rightarrow> DebugMode" where
  "run_ticks 0 st = st"
| "run_ticks (Suc n) st = fst (handleStreaming (run_ticks n st) sample_matched sample_matched)"

section \<open>Motor controller: position percentage and soft limits\<close>

lemma motor_ready_simps:
  "gpioInitialized motor_ready" "gpioOutBase motor_ready = 0x41200000"
  "gpioInBase motor_ready = 0x41210000" "posOffset motor_ready = 0"
  "minValue motor_ready = 0" "maxValue motor_ready = 64000"
  "lowerLimit motor_ready = 4000" "upperLimit motor_ready = 60000"
  "minCap motor_ready = 0" "maxCap motor_ready = 100000"
  "fitCoeffs0 motor_ready = 0" "fitCoeffs1 motor_ready = 0"
  "fitCoeffs2 motor_ready = 0" "fitCoeffs3 motor_ready = 0"
  "reg_TAR_POS motor_ready = 0" "reg_NOW_POS motor_ready = 0" "reg_NOW_RPM motor_ready = 0"
  by (simp_all add: motor_ready_def initializeGpio_def MotorController_init_def Let_def)

text \<open>
  C9. \<open>getPositionPercent\<close> returns a value in \<open>[0, 100]\<close> for every motor state:
  it is 0 when \<open>maxValue \<le> minValue\<close>, and otherwise the computed percentage
  clamped to \<open>[0, 100]\<close>, whatever the current position is. The subtraction,
  the product by 100 and the division are the wrapping 32-bit ones.
\<close>

theorem getPositionPercent_in_0_100:
  "0 \<le> sint (getPositionPercent m) \<and> sint (getPositionPercent m) \<le> 100 \<and>
   sint (getPositionPercent m) =
     (if sint (maxValue m) \<le> sint (minValue m) then 0
      else clamp_spec (sint (positionPercentRaw m)) 0 100)"
  by (simp add: getPositionPercent_def Let_def clamp_spec_def)

text \<open>
  The position 70000 lies beyond \<open>maxValue = 64000\<close>: the computed percentage
  is 109 and the result is 100.
\<close>

theorem getPositionPercent_in_0_100_witness:
  "sint (positionPercentRaw (motor_ready\<lparr>reg_NOW_POS := 70000\<rparr>)) = 109 \<and>
   sint (getPositionPercent (motor_ready\<lparr>reg_NOW_POS := 70000\<rparr>)) = 100"
proof -
  have raw: "sint (positionPercentRaw (motor_ready\<lparr>reg_NOW_POS := 70000\<rparr>)) = 109"
    by (simp add: positionPercentRaw_def readPos_def readPosRaw_def sdiv32_def motor_ready_simps)
  show ?thesis
    using getPositionPercent_in_0_100 [of "motor_ready\<lparr>reg_NOW_POS := 70000\<rparr>"] raw
    by (simp add: motor_ready_simps clamp_spec_def)
qed

lemma RunMotor_unmapped:
  "\<not> gpioInitialized m \<or> gpioOutBase m = 0 \<Longrightarrow>
     RunMotor m target printStatus afterDelayMs = (XST_FAILURE, m, [])"
  by (simp add: RunMotor_def)

text \<open>
  C6. For every target, a \<open>RunMotor\<close> call on a mapped motor whose soft window
  is not empty writes exactly the target clamped to \<open>[lowerLimit, upperLimit]\<close>
  to the target-position register and changes nothing else; the value written
  lies in the window; and the clamp message is printed exactly when the clamp
  changed the value. (On a motor that is not mapped the call fails and writes
  nothing, \<open>RunMotor_unmapped\<close>.)
\<close>

theorem RunMotor_writes_clamped_target:
  assumes "gpioInitialized m" and "gpioOutBase m \<noteq> 0"
    and "sint (lowerLimit m) \<le> sint (upperLimit m)"
    and "RunMotor m target printStatus afterDelayMs = (status, m', lines)"
  shows "status = XST_SUCCESS
     \<and> m' = m\<lparr>reg_TAR_POS := reg_TAR_POS m'\<rparr>
     \<and> sint (reg_TAR_POS m') = clamp_spec (sint target) (sint (lowerLimit m)) (sint (upperLimit m))
     \<and> sint (lowerLimit m) \<le> sint (reg_TAR_POS m')
     \<and> sint (reg_TAR_POS m') \<le> sint (upperLimit m)
     \<and> (LogClamped target (reg_TAR_POS m') (lowerLimit m) (upperLimit m) \<in> set lines
            \<longleftrightarrow> reg_TAR_POS m' \<noteq> target)"
  using assms
  by (auto simp add: RunMotor_def Let_def clamp_spec_def split: prod.splits if_splits)

text \<open>The target 70000 on the fresh motor: 60000 is written and the clamp is logged.\<close>

theorem RunMotor_writes_clamped_target_witness:
  "RunMotor motor_ready 70000 False 0
     = (XST_SUCCESS, motor_ready\<lparr>reg_TAR_POS := 60000\<rparr>, [LogClamped 70000 60000 4000 60000])
   \<and> reg_TAR_POS (motor_ready\<lparr>reg_TAR_POS := 60000\<rparr>) \<noteq> 70000
   \<and> sint (60000 :: int32) = clamp_spec 70000 4000 60000"
proof -
  have run: "RunMotor motor_ready 70000 False 0
     = (XST_SUCCESS, motor_ready\<lparr>reg_TAR_POS := 60000\<rparr>, [LogClamped 70000 60000 4000 60000])"
    by (simp add: RunMotor_def motor_ready_simps)
  have "gpioInitialized motor_ready" "gpioOutBase motor_ready \<noteq> 0"
    "sint (lowerLimit motor_ready) \<le> sint (upperLimit motor_ready)"
    by (simp_all add: motor_ready_simps)
  from RunMotor_writes_clamped_target [OF this run] run
  show ?thesis by (simp add: motor_ready_simps)
qed

section \<open>Motor controller: the capacitance round trip\<close>













section \<open>Persistence: the range checks of the loaders\<close>

text \<open>
  After a successful read, \<open>loadVswrSettings\<close> checks each of its three fields
  against the field's own range.
\<close>

lemma loadVswrSettings_fields:
  "loadVswrSettings mi 0 (s0, s1, s2) = (r, mi', out) \<Longrightarrow>
     vswrStart mi' = (if 1 \<le> s0 \<and> s0 \<le> 10 then s0 else 104 / 100)
   \<and> vswrStop mi' = (if 1 \<le> s1 \<and> s1 \<le> 5 then s1 else 102 / 100)
   \<and> vswrRestart mi' = (if 1 \<le> s2 \<and> s2 \<le> 10 then s2 else 104 / 100)"
  by (auto simp add: loadVswrSettings_def Let_def)

text \<open>
  \<open>loadAmsSettings\<close> does so for the interval and the log interval; the lower
  bound of the timeout is tested on \<open>settings[0]\<close>, the interval.
\<close>

lemma loadAmsSettings_fields:
  "loadAmsSettings mi 0 (s0, s1, s2) = (r, mi', out) \<Longrightarrow>
     amsInterval mi' = (if 1 \<le> sint s0 \<and> sint s0 \<le> 1000 then s0 else 10)
   \<and> amsTimeout mi' = (if 0 \<le> sint s0 \<and> sint s1 \<le> 60000 then s1 else 0)
   \<and> amsLogInterval mi' = (if 1 \<le> sint s2 \<and> sint s2 \<le> 1000 then s2 else 10)"
  by (auto simp add: loadAmsSettings_def Let_def)

text \<open>
  C3 asks that each field is checked against its own range, whatever the other
  fields hold. The stored record \<open>(10, -5, 10)\<close> loads the timeout \<open>-5\<close>, which
  is outside \<open>[0, 60000]\<close> and should have become the default 0; the stored
  record \<open>(-1, 5000, 10)\<close> loses its timeout 5000, which is inside the range,
  because the interval is negative.
\<close>

theorem loadAmsSettings_timeout_checks_wrong_field:
  "amsTimeout (fst (snd (loadAmsSettings mi 0 (10, - 5, 10)))) = - 5
   \<and> ams_timeout_spec (- 5) = 0
   \<and> amsTimeout (fst (snd (loadAmsSettings mi 0 (- 1, 5000, 10)))) = 0
   \<and> ams_timeout_spec 5000 = 5000"
  by (simp add: loadAmsSettings_def ams_timeout_spec_def Let_def)

section \<open>VSWR\<close>

text \<open>
  C4. For every \<open>(R, X)\<close>, \<open>calculateVSWR\<close> returns \<open>(1 + G) / (1 - G)\<close> with
  \<open>G = sqrt (((R - 50)\<^sup>2 + X\<^sup>2) / ((R + 50)\<^sup>2 + X\<^sup>2))\<close> whenever the
  denominator is at least \<open>1e-12\<close> and \<open>G < 1\<close>, and 999 otherwise; the value
  at \<open>(50, 0)\<close> is within \<open>1e-6\<close> of 1.
\<close>

theorem calculateVSWR_formula:
  "calculateVSWR R X =
     (let G = sqrt (((R - 50)\<^sup>2 + X\<^sup>2) / ((R + 50)\<^sup>2 + X\<^sup>2))
      in if (R + 50)\<^sup>2 + X\<^sup>2 \<ge> 1 / 10 ^ 12 \<and> G < 1 then (1 + G) / (1 - G) else 999)
   \<and> \<bar>calculateVSWR 50 0 - 1\<bar> \<le> 1 / 10 ^ 6"
  by (simp add: calculateVSWR_def calculateVSWR_Z0_def Let_def power2_eq_square not_less not_le)

text \<open>A purely reactive load reflects everything: the result is the cap 999.\<close>

lemma calculateVSWR_total_reflection: "calculateVSWR 0 X = 999"
  by (simp add: calculateVSWR_def calculateVSWR_Z0_def Let_def)

lemma calculateVSWR_ge_1: "1 \<le> calculateVSWR R X"
  by (simp add: calculateVSWR_def calculateVSWR_Z0_def Let_def not_less)

section \<open>Matching algorithm: when the output sensor is used\<close>

text \<open>
  C10. \<open>calculateMatchingGoals\<close> takes \<open>RC\<close>, \<open>XC\<close> and \<open>XD\<close> from the output
  sensor only when \<open>useOutputForRC\<close> is set and at least one of \<open>Rpm\<close>, \<open>Xpm\<close>
  is not zero; otherwise they are the input-derived values. With the reading
  \<open>(0, 0)\<close> the goals are those of a call without the flag, and so are the
  goals of the AMS, which sets the flag by \<open>vswr > 2\<close>, whatever the VSWR is.
\<close>

theorem output_path_needs_flag_and_nonzero_reading:
  "RC_calculated (calculateMatchingGoals Rm Xm VVC0_pF VVC1_pF m0 m1 Rpm Xpm useOutputForRC) =
     (if useOutputForRC \<and> (Rpm \<noteq> 0 \<or> Xpm \<noteq> 0)
      then fst (calculateZCFromOutput Rpm Xpm VVC1_pF)
      else pt_RC (calculateImpedances Rm Xm VVC0_pF VVC1_pF))
   \<and> XC_calculated (calculateMatchingGoals Rm Xm VVC0_pF VVC1_pF m0 m1 Rpm Xpm useOutputForRC) =
     (if useOutputForRC \<and> (Rpm \<noteq> 0 \<or> Xpm \<noteq> 0)
      then snd (calculateZCFromOutput Rpm Xpm VVC1_pF)
      else pt_XC (calculateImpedances Rm Xm VVC0_pF VVC1_pF))
   \<and> XD_calculated (calculateMatchingGoals Rm Xm VVC0_pF VVC1_pF m0 m1 Rpm Xpm useOutputForRC) =
     (if useOutputForRC \<and> (Rpm \<noteq> 0 \<or> Xpm \<noteq> 0)
      then snd (calculateZD (fst (calculateZCFromOutput Rpm Xpm VVC1_pF))
                            (snd (calculateZCFromOutput Rpm Xpm VVC1_pF)))
      else pt_XD (calculateImpedances Rm Xm VVC0_pF VVC1_pF))
   \<and> calculateMatchingGoals Rm Xm VVC0_pF VVC1_pF m0 m1 0 0 True
       = calculateMatchingGoals Rm Xm VVC0_pF VVC1_pF m0 m1 0 0 False
   \<and> amsGoals st iRes (oRes\<lparr>smp_R := 0, smp_X := 0\<rparr>) vswr
       = calculateMatchingGoals (smp_R iRes) (smp_X iRes)
           (of_int32 (getCapacitance (M1 st)) / 100) (of_int32 (getCapacitance (M2 st)) / 100)
           (Some (M1 st)) (Some (M2 st)) 0 0 False"
proof -
  have dbg: "RC_calculated (calculateMatchingGoals Rm Xm VVC0_pF VVC1_pF m0 m1 Rpm Xpm useOutputForRC)
       = fst (runtime_RC_XC_XD (calculateImpedances Rm Xm VVC0_pF VVC1_pF) VVC1_pF Rpm Xpm useOutputForRC)
     \<and> XC_calculated (calculateMatchingGoals Rm Xm VVC0_pF VVC1_pF m0 m1 Rpm Xpm useOutputForRC)
       = fst (snd (runtime_RC_XC_XD (calculateImpedances Rm Xm VVC0_pF VVC1_pF) VVC1_pF Rpm Xpm useOutputForRC))
     \<and> XD_calculated (calculateMatchingGoals Rm Xm VVC0_pF VVC1_pF m0 m1 Rpm Xpm useOutputForRC)
       = snd (snd (runtime_RC_XC_XD (calculateImpedances Rm Xm VVC0_pF VVC1_pF) VVC1_pF Rpm Xpm useOutputForRC))"
    by (simp add: calculateMatchingGoals_def Let_def goalsNoSolution_def goalsSolved_def)
  have rt: "runtime_RC_XC_XD pts v 0 0 True = runtime_RC_XC_XD pts v 0 0 False" for pts v
    by (simp add: runtime_RC_XC_XD_def)
  have eq: "calculateMatchingGoals Rm Xm VVC0_pF VVC1_pF m0 m1 0 0 True
       = calculateMatchingGoals Rm Xm VVC0_pF VVC1_pF m0 m1 0 0 False" for Rm Xm VVC0_pF VVC1_pF m0 m1
    by (simp only: calculateMatchingGoals_def rt)
  have rt2: "runtime_RC_XC_XD pts VVC1_pF Rpm Xpm useOutputForRC =
     (if useOutputForRC \<and> (Rpm \<noteq> 0 \<or> Xpm \<noteq> 0)
      then (fst (calculateZCFromOutput Rpm Xpm VVC1_pF), snd (calculateZCFromOutput Rpm Xpm VVC1_pF),
            snd (calculateZD (fst (calculateZCFromOutput Rpm Xpm VVC1_pF))
                            (snd (calculateZCFromOutput Rpm Xpm VVC1_pF))))
      else (pt_RC pts, pt_XC pts, pt_XD pts))" for pts
    by (auto simp add: runtime_RC_XC_XD_def Let_def split: prod.splits)
  have ams: "amsGoals st iRes (oRes\<lparr>smp_R := 0, smp_X := 0\<rparr>) vswr
       = calculateMatchingGoals (smp_R iRes) (smp_X iRes)
           (of_int32 (getCapacitance (M1 st)) / 100) (of_int32 (getCapacitance (M2 st)) / 100)
           (Some (M1 st)) (Some (M2 st)) 0 0 False"
    by (cases "vswr > 2") (simp_all add: amsGoals_def Let_def eq)
  show ?thesis
    using dbg eq ams by (auto simp add: rt2)
qed

text \<open>
  Scenario 3 of the specification, \<open>Rm = 10\<close>, \<open>Xm = 40\<close> with the output reading
  \<open>(48, 2)\<close>: with the flag the values come from the output sensor, without
  the flag or with the reading \<open>(0, 0)\<close> from the input.
\<close>

theorem output_path_needs_flag_and_nonzero_reading_witness:
  "RC_calculated (calculateMatchingGoals 10 40 50 50 None None 48 2 True)
     = fst (calculateZCFromOutput 48 2 50)
   \<and> RC_calculated (calculateMatchingGoals 10 40 50 50 None None 48 2 False)
     = pt_RC (calculateImpedances 10 40 50 50)
   \<and> RC_calculated (calculateMatchingGoals 10 40 50 50 None None 0 0 True)
     = pt_RC (calculateImpedances 10 40 50 50)"
  using output_path_needs_flag_and_nonzero_reading [of 10 40 50 50 None None 48 2 True]
    output_path_needs_flag_and_nonzero_reading [of 10 40 50 50 None None 48 2 False]
    output_path_needs_flag_and_nonzero_reading [of 10 40 50 50 None None 0 0 True]
    output_path_needs_flag_and_nonzero_reading [of 10 40 50 50 None None 0 0 False]
  by simp


section \<open>Matching algorithm: a reading without a real solution\<close>

text \<open>
  The powers of \<open>\<omega>\<close> are decimal fractions; their exact values keep the
  evaluation of the circuit constants short.
\<close>

lemma k_w_value: "k_w = 53249995478346995391897 / 625000000000000"
  by (simp add: k_w_def OMEGA_def PI_def FREQ_def)

lemma k_w2_value: "k_w2 = 2835562018443975454582924581485529752613258609 / 390625000000000000000000000000"
  by (simp add: k_w2_def k_w_value)

lemma k_w3_value: "k_w3 = 150993664660714172506721943945121152488927445719037261232908164091273 / 244140625000000000000000000000000000000000000"
  by (simp add: k_w3_def k_w_value k_w2_value)

lemma k_w4_value: "k_w4 = 8040411960442072196076364153509942894003581910177864295146340972064627763055356057512614881 / 152587890625000000000000000000000000000000000000000000000000"
  by (simp add: k_w4_def k_w2_value)

lemmas omega_values = k_w_value k_w2_value k_w3_value k_w4_value

lemmas ZA_consts = k_denom_A_const_def k_denom_A_Rm2_def k_denom_A_Xm_def k_denom_A_Xm2_def
  k_XA_const_def k_XA_Rm2_def k_XA_Xm_def k_XA_Xm2_def CpLpW2_def Cp2W2_def Cp2Lp2W4_def
  Lp2_def Cp2_def Lp_def Cp_def nH_def pF_def

lemmas ZB_consts = LB02_def CB02_def RB02_def CB0LB0W2_def CB02W2_RB02_LB02W2_def
  k_denomB_const_def k_RB_const_def k_XB_numer_const_def k_XB_numer_VVC0_def
  k_XB_denom_factor_def LB0_def RB0_def CB0_def nH_def pF_def

lemmas goal_consts = Z2_def denomGoal_def k_RAGoal_def k_XAGoal_def Z_TARGET_def
  Lp2_def Cp2_def Lp_def Cp_def nH_def pF_def

text \<open>The reading \<open>Rm = 100\<close>, \<open>Xm = 0\<close> with \<open>VVC0 = 50 pF\<close>: bounds on ZA and ZB.\<close>

lemma calculateZA_100_0_bounds:
  "99 \<le> fst (calculateZA 100 0) \<and> fst (calculateZA 100 0) \<le> 100
   \<and> 9 \<le> snd (calculateZA 100 0) \<and> snd (calculateZA 100 0) \<le> 10"
  by (simp add: calculateZA_def Let_def ZA_consts omega_values)

lemma k_RB_const_bounds: "2 / 10 \<le> k_RB_const \<and> k_RB_const \<le> 21 / 100"
  by (simp add: ZB_consts omega_values)

lemma calculateZB_50_bounds:
  "fst (calculateZB 50) = k_RB_const
   \<and> - 222 \<le> snd (calculateZB 50) \<and> snd (calculateZB 50) \<le> - 221"
  by (simp add: calculateZB_def Let_def ZB_consts omega_values)

lemma goal_impedance_bounds:
  "50 \<le> k_RAGoal \<and> k_RAGoal \<le> 51 \<and> 2 / 10 \<le> k_XAGoal \<and> k_XAGoal \<le> 21 / 100"
  by (simp add: goal_consts omega_values)
text \<open>
  With ZA and ZB in these intervals the parallel combination has \<open>RC > 60\<close>.
\<close>

lemma calculateZC_RC_lower:
  fixes RA XA RB XB :: real
  assumes RA: "99 \<le> RA" "RA \<le> 100" and RB: "0 \<le> RB" "RB \<le> 21 / 100"
    and XA: "9 \<le> XA" "XA \<le> 10" and XB: "- 222 \<le> XB" "XB \<le> - 221"
  shows "60 < fst (calculateZC RA XA RB XB)"
proof -
  define D where "D = RA * RA - 2 * RA * RB + RB * RB + XA * XA - 2 * XA * XB + XB * XB"
  define N where "N = - (RA * RA * RB) + RA * (RB * RB) - RB * (XA * XA) + RA * (XB * XB)"
  have D_eq: "D = (RA - RB) * (RA - RB) + (XA - XB) * (XA - XB)"
    by (simp add: D_def algebra_simps)
  have d1: "(RA - RB) * (RA - RB) \<le> 100 * 100"
    using RA RB by (intro mult_mono) auto
  have d2: "(XA - XB) * (XA - XB) \<le> 232 * 232"
    using XA XB by (intro mult_mono) auto
  have d3: "230 * 230 \<le> (XA - XB) * (XA - XB)"
    using XA XB by (intro mult_mono) auto
  have d4: "0 \<le> (RA - RB) * (RA - RB)" by simp
  have D_lo: "52900 \<le> D" and D_hi: "D \<le> 63824"
    unfolding D_eq using d1 d2 d3 d4 by linarith+
  have n1: "RA * RA * RB \<le> 100 * 100 * (21 / 100)"
    using RA RB by (intro mult_mono) auto
  have n2: "0 \<le> RA * (RB * RB)"
    using RA RB by simp
  have n3: "RB * (XA * XA) \<le> (21 / 100) * (10 * 10)"
    using XA RB by (intro mult_mono) auto
  have xb2: "221 * 221 \<le> XB * XB"
  proof -
    have "221 * 221 \<le> (- XB) * (- XB)" using XB by (intro mult_mono) auto
    then show ?thesis by simp
  qed
  have n4: "99 * (221 * 221) \<le> RA * (XB * XB)"
    by (rule mult_mono) (use RA xb2 in auto)
  have N_lo: "4833000 \<le> N"
    unfolding N_def using n1 n2 n3 n4 by linarith
  have "60 * D < N" using D_hi N_lo by linarith
  then have "60 < N / D" using D_lo by (simp add: pos_less_divide_eq)
  moreover have "\<not> \<bar>D\<bar> < 1 / 10 ^ 12" using D_lo by simp
  ultimately show ?thesis
    unfolding calculateZC_def Let_def D_def [symmetric]
    by (simp add: N_def)
qed

text \<open>
  The discriminant is a downward parabola in \<open>RC\<close> whose larger root is near 50.2:
  it is negative from \<open>RC = 60\<close> on.
\<close>

lemma discriminant_negative_from_60:
  assumes RC: "60 \<le> RC"
  shows "discriminant_of RC < 0"
proof -
  define A where "A = k_RAGoal"
  define B where "B = k_RB_const"
  define X where "X = k_XAGoal"
  have a': "50 \<le> A" "A \<le> 51" and b': "2 / 10 \<le> B" "B \<le> 21 / 100"
    and x': "2 / 10 \<le> X" "X \<le> 21 / 100"
    using goal_impedance_bounds k_RB_const_bounds by (simp_all add: A_def B_def X_def)
  have A2: "A * A \<le> 51 * 51" by (rule mult_mono) (use a' in auto)
  have A3: "A * (A * A) \<le> 51 * (51 * 51)" by (rule mult_mono) (use a' A2 in auto)
  have B2: "B * B \<le> (21 / 100) * (21 / 100)" by (rule mult_mono) (use b' in auto)
  have X2: "X * X \<le> (21 / 100) * (21 / 100)" by (rule mult_mono) (use x' in auto)
  have AB: "A * B \<le> 51 * (21 / 100)" by (rule mult_mono) (use a' b' in auto)
  have t1: "A * (A * A) * B \<le> 51 * (51 * 51) * (21 / 100)"
    by (rule mult_mono) (use A3 a' b' in auto)
  have t2: "0 \<le> A * A * (B * B)" by simp
  have t3: "A * B * (X * X) \<le> 51 * (21 / 100) * ((21 / 100) * (21 / 100))"
    by (rule mult_mono) (use AB X2 a' b' in auto)
  have d0: "k_disc_const \<le> 27858"
    unfolding k_disc_const_def RAGoal3_def k_RAGoal2_def k_RB2_def k_XAGoal2_def
      A_def [symmetric] B_def [symmetric] X_def [symmetric]
    using t1 t2 t3 by linarith
  have u1: "0 \<le> 3 * (A * A) * B" using a' b' by simp
  have u2: "2 * A * (B * B) \<le> 2 * 51 * ((21 / 100) * (21 / 100))"
    by (rule mult_mono) (use a' B2 in auto)
  have u3: "A * (X * X) \<le> 51 * ((21 / 100) * (21 / 100))"
    by (rule mult_mono) (use a' X2 in auto)
  have u4: "0 \<le> B * (X * X)" using b' by simp
  have d1: "k_disc_RC_coef \<le> 132658"
    unfolding k_disc_RC_coef_def RAGoal3_def k_RAGoal2_def k_RB2_def k_XAGoal2_def
      A_def [symmetric] B_def [symmetric] X_def [symmetric]
    using A3 u1 u2 u3 u4 by linarith
  have v1: "(4979 / 100) * (4979 / 100) \<le> (A - B) * (A - B)"
    by (rule mult_mono) (use a' b' in auto)
  have v2: "- (A * A) + 2 * A * B - B * B = - ((A - B) * (A - B))"
    by (simp add: algebra_simps)
  have d2: "k_disc_RC2_coef \<le> - 2479"
    unfolding k_disc_RC2_coef_def k_RAGoal2_def k_RB2_def
      A_def [symmetric] B_def [symmetric] v2
    using v1 by linarith
  have "k_disc_RC2_coef * RC \<le> (- 2479) * RC"
    by (rule mult_right_mono) (use d2 RC in auto)
  then have w1: "k_disc_RC_coef + k_disc_RC2_coef * RC \<le> - 16082"
    using d1 RC by linarith
  define S where "S = (k_disc_RC_coef + k_disc_RC2_coef * RC) * RC"
  have "S \<le> (- 16082) * RC"
    unfolding S_def by (rule mult_right_mono) (use w1 RC in auto)
  then have w2: "S \<le> - 964920"
    using RC by linarith
  have eq: "discriminant_of RC = 4 * (k_disc_const + S)"
    by (simp add: discriminant_of_def S_def algebra_simps)
  have "k_disc_const + S < 0"
    using d0 w2 by linarith
  then show ?thesis
    unfolding eq by simp
qed

lemma calculateImpedances_RC_XB:
  "pt_RC (calculateImpedances Rm Xm VVC0_pF VVC1_pF) =
     fst (calculateZC (fst (calculateZA Rm Xm)) (snd (calculateZA Rm Xm))
            (fst (calculateZB VVC0_pF)) (snd (calculateZB VVC0_pF)))"
  by (simp add: calculateImpedances_def Let_def split: prod.splits)

lemma reading_100_0_RC: "60 < pt_RC (calculateImpedances 100 0 50 VVC1_pF)"
  unfolding calculateImpedances_RC_XB
  using calculateZA_100_0_bounds calculateZB_50_bounds k_RB_const_bounds
  by (intro calculateZC_RC_lower) auto

lemma reading_100_0_no_solution:
  "calculateMatchingGoals 100 0 50 VVC1_pF m0 m1 0 0 False =
     goalsNoSolution (pt_RC (calculateImpedances 100 0 50 VVC1_pF))
       (pt_XC (calculateImpedances 100 0 50 VVC1_pF))
       (pt_XD (calculateImpedances 100 0 50 VVC1_pF))"
proof -
  have "discriminant_of (pt_RC (calculateImpedances 100 0 50 VVC1_pF)) < 0"
    using reading_100_0_RC [of VVC1_pF] by (intro discriminant_negative_from_60) simp
  then show ?thesis
    by (simp add: calculateMatchingGoals_def runtime_RC_XC_XD_def Let_def)
qed


lemma reading_goals_no_solution:
  "reading_goals =
     goalsNoSolution (pt_RC (calculateImpedances 100 0 50 50))
       (pt_XC (calculateImpedances 100 0 50 50)) (pt_XD (calculateImpedances 100 0 50 50))"
  unfolding reading_goals_def by (rule reading_100_0_no_solution)

lemma reading_goals_discriminant: "discriminant_of (RC_calculated reading_goals) < 0"
  unfolding reading_goals_no_solution
  using reading_100_0_RC [of 50]
  by (simp add: goalsNoSolution_def discriminant_negative_from_60)

text \<open>
  What the early \<open>return\<close> of the branch \<open>discriminant < 0\<close> does return, for
  every input that takes it.
\<close>

lemma negative_discriminant_goals:
  assumes "discriminant_of
     (RC_calculated (calculateMatchingGoals Rm Xm VVC0_pF VVC1_pF m0 m1 Rpm Xpm u)) < 0"
  shows "calculateMatchingGoals Rm Xm VVC0_pF VVC1_pF m0 m1 Rpm Xpm u =
     goalsNoSolution (RC_calculated (calculateMatchingGoals Rm Xm VVC0_pF VVC1_pF m0 m1 Rpm Xpm u))
       (XC_calculated (calculateMatchingGoals Rm Xm VVC0_pF VVC1_pF m0 m1 Rpm Xpm u))
       (XD_calculated (calculateMatchingGoals Rm Xm VVC0_pF VVC1_pF m0 m1 Rpm Xpm u))"
proof -
  have "RC_calculated (calculateMatchingGoals Rm Xm VVC0_pF VVC1_pF m0 m1 Rpm Xpm u)
       = fst (runtime_RC_XC_XD (calculateImpedances Rm Xm VVC0_pF VVC1_pF) VVC1_pF Rpm Xpm u)"
    by (simp add: calculateMatchingGoals_def Let_def goalsNoSolution_def goalsSolved_def)
  with assms show ?thesis
    by (simp add: calculateMatchingGoals_def Let_def goalsNoSolution_def)
qed

lemma goalsNoSolution_fields:
  "\<not> valid0 (goalsNoSolution RC XC XD) \<and> \<not> valid1 (goalsNoSolution RC XC XD)
   \<and> VVC0Goal0 (goalsNoSolution RC XC XD) = 0 \<and> VVC0Goal1 (goalsNoSolution RC XC XD) = 0
   \<and> VVC1Goal0 (goalsNoSolution RC XC XD) = 0 \<and> VVC1Goal1 (goalsNoSolution RC XC XD) = 0
   \<and> step0Goal0 (goalsNoSolution RC XC XD) = 0 \<and> step0Goal1 (goalsNoSolution RC XC XD) = 0
   \<and> step1Goal0 (goalsNoSolution RC XC XD) = 0 \<and> step1Goal1 (goalsNoSolution RC XC XD) = 0
   \<and> XBGoal0 (goalsNoSolution RC XC XD) = 0 \<and> XBGoal1 (goalsNoSolution RC XC XD) = 0
   \<and> XDGoal0 (goalsNoSolution RC XC XD) = None \<and> XDGoal1 (goalsNoSolution RC XC XD) = None"
  by (simp add: goalsNoSolution_def)

text \<open>
  C5 asks that a negative discriminant returns both flags false and zeros in
  all capacitance goals, reactance goals and step targets. At the reading
  \<open>Rm = 100\<close>, \<open>Xm = 0\<close>, \<open>VVC0 = VVC1 = 50 pF\<close> the discriminant is negative; the
  flags are false and the capacitance goals, the step targets and the two B
  reactance goals are 0, but the two D reactance goals \<open>XDGoal0\<close> and
  \<open>XDGoal1\<close> were never assigned.
\<close>

theorem negative_discriminant_leaves_XDGoal_unassigned:
  "discriminant_of (RC_calculated reading_goals) < 0
   \<and> \<not> valid0 reading_goals \<and> \<not> valid1 reading_goals
   \<and> VVC0Goal0 reading_goals = 0 \<and> VVC0Goal1 reading_goals = 0
   \<and> VVC1Goal0 reading_goals = 0 \<and> VVC1Goal1 reading_goals = 0
   \<and> step0Goal0 reading_goals = 0 \<and> step0Goal1 reading_goals = 0
   \<and> step1Goal0 reading_goals = 0 \<and> step1Goal1 reading_goals = 0
   \<and> XBGoal0 reading_goals = 0 \<and> XBGoal1 reading_goals = 0
   \<and> XDGoal0 reading_goals = None \<and> XDGoal1 reading_goals = None"
  using reading_goals_discriminant goalsNoSolution_fields
  by (simp add: reading_goals_no_solution)

text \<open>
  The call was made without the flag \<open>useOutputForRC\<close>, so the discriminant is
  the one of the input-derived \<open>RC\<close>, which is above 60.
\<close>

theorem negative_discriminant_leaves_XDGoal_unassigned_witness:
  "RC_calculated reading_goals = pt_RC (calculateImpedances 100 0 50 50)
   \<and> 60 < RC_calculated reading_goals
   \<and> discriminant_of (RC_calculated reading_goals) < 0
   \<and> XDGoal0 reading_goals = None \<and> XDGoal1 reading_goals = None"
proof -
  have "RC_calculated reading_goals = pt_RC (calculateImpedances 100 0 50 50)"
    by (simp add: reading_goals_no_solution goalsNoSolution_def)
  with negative_discriminant_leaves_XDGoal_unassigned reading_100_0_RC [of 50]
  show ?thesis by simp
qed

section \<open>Matching algorithm: what the valid flag says\<close>






section \<open>RF sensor: the unguarded division\<close>

text \<open>\<open>divideSafe\<close> never divides by less than \<open>1e-12\<close>.\<close>

lemma divideSafe_floor:
  "divideSafe a b =
     ((fst a * fst b + snd a * snd b) / max (1 / 10 ^ 12) (fst b * fst b + snd b * snd b),
      (snd a * fst b - fst a * snd b) / max (1 / 10 ^ 12) (fst b * fst b + snd b * snd b))"
  by (simp add: divideSafe_def Let_def max_def not_less)

lemma accumulate_silent:
  "accumulate sensor_silent sv si idxs (0, 0, 0, 0) = (0, 0, 0, 0)"
  by (induction idxs) (simp_all add: accumulateStep_def multiply_def sensor_silent_def Let_def)

lemma pollHold_first_round:
  assumes "base \<noteq> 0" "and (rd k) 0x80000000 \<noteq> 0" "and (rd (k + 1)) 0x80000000 \<noteq> 0"
  shows "pollHold (Suc t) base rd k st
     = ((True, and (rd k) 0x7FFFFFFF), (True, and (rd (k + 1)) 0x7FFFFFFF))"
  using assms by (simp add: checkFftHoldStatus_def Let_def)

lemma sensor_silent_hold:
  "pollHold 100 (gate_gpio_base sensor_silent) (gate_status sensor_silent) 0 st
     = ((True, 0), (True, 0))"
proof -
  have "pollHold (Suc 99) (gate_gpio_base sensor_silent) (gate_status sensor_silent) 0 st
     = ((True, 0), (True, 0))"
    by (subst pollHold_first_round) (simp_all add: sensor_silent_def)
  then show ?thesis by simp
qed

text \<open>
  Without signal the averaged current magnitude squared is exactly 0 and the
  ratio is 0/0, for every average count.
\<close>

lemma sensor_silent_sample:
  "impedanceMagnitude (calculateAveragedImpedance sensor_silent n) = None
   \<and> resistanceR (calculateAveragedImpedance sensor_silent n) = None
   \<and> reactanceX (calculateAveragedImpedance sensor_silent n) = None"
  by (simp add: calculateAveragedImpedance_def Let_def sensor_silent_hold accumulate_silent
      fdiv_def split_beta)

text \<open>
  C2 asks for six finite fields at the average counts 0, 1, N and N + 1 for
  every content of the buffers, the ratio being formed with a floor of
  \<open>1e-12\<close>. \<open>calculateAveragedImpedance\<close> has no such floor: with all four
  buffers at 0 the impedance magnitude, the resistance and the reactance are
  not finite numbers, at each of the four counts.
\<close>

theorem averaged_impedance_divides_by_zero:
  "\<not> all_finite (calculateAveragedImpedance sensor_silent 0)
   \<and> \<not> all_finite (calculateAveragedImpedance sensor_silent 1)
   \<and> \<not> all_finite (calculateAveragedImpedance sensor_silent 1024)
   \<and> \<not> all_finite (calculateAveragedImpedance sensor_silent 1025)
   \<and> impedanceMagnitude (calculateAveragedImpedance sensor_silent 1) = None
   \<and> resistanceR (calculateAveragedImpedance sensor_silent 1) = None
   \<and> reactanceX (calculateAveragedImpedance sensor_silent 1) = None"
  using sensor_silent_sample by (simp add: all_finite_def)

text \<open>
  The hold was acknowledged on both channels, so the call did take the path of
  the division; the voltage and current magnitudes and the phase are finite.
\<close>

theorem averaged_impedance_divides_by_zero_witness:
  "pollHold 100 (gate_gpio_base sensor_silent) (gate_status sensor_silent) 0 ((False, 0), (False, 0))
     = ((True, 0), (True, 0))
   \<and> voltageMagnitude (calculateAveragedImpedance sensor_silent 1) = Some 0
   \<and> currentMagnitude (calculateAveragedImpedance sensor_silent 1) = Some 0
   \<and> impedancePhaseDeg (calculateAveragedImpedance sensor_silent 1) = Some 0
   \<and> impedanceMagnitude (calculateAveragedImpedance sensor_silent 1) = None
   \<and> \<not> all_finite (calculateAveragedImpedance sensor_silent 1)"
proof -
  have "voltageMagnitude (calculateAveragedImpedance sensor_silent 1) = Some 0
     \<and> currentMagnitude (calculateAveragedImpedance sensor_silent 1) = Some 0
     \<and> impedancePhaseDeg (calculateAveragedImpedance sensor_silent 1) = Some 0"
    by (simp add: calculateAveragedImpedance_def Let_def sensor_silent_hold accumulate_silent
        fsqrt_def atan2_def split_beta)
       (simp add: sensor_silent_def)
  with averaged_impedance_divides_by_zero sensor_silent_hold [of "((False, 0), (False, 0))"]
  show ?thesis by simp
qed

section \<open>Auto-match state machine\<close>

lemma amsMatchStep_keeps:
  "amsEnabled (fst (amsMatchStep st l iRes oRes v)) = amsEnabled st"
  "amsMatching (fst (amsMatchStep st l iRes oRes v)) = amsMatching st"
  "amsVerbose (fst (amsMatchStep st l iRes oRes v)) = amsVerbose st"
  "iSensor_present (fst (amsMatchStep st l iRes oRes v)) = iSensor_present st"
  "oSensor_present (fst (amsMatchStep st l iRes oRes v)) = oSensor_present st"
  "mBoard_present (fst (amsMatchStep st l iRes oRes v)) = mBoard_present st"
  by (simp_all add: amsMatchStep_def Let_def split_beta)

lemma handleStreaming_inv:
  assumes "ams_inv st"
  shows "ams_inv (fst (handleStreaming st iRes oRes))"
  using assms
  unfolding handleStreaming_def Let_def ams_inv_def
  by (simp add: split_beta amsMatchStep_keeps)

lemma handleAmsCommand_inv:
  assumes "ams_inv st"
  shows "ams_inv (fst (handleAmsCommand st cmd))"
  using assms
  unfolding handleAmsCommand_def Let_def ams_inv_def
  by (cases cmd) (simp_all add: split_beta)

lemma reachable_inv: "reachable st \<Longrightarrow> ams_inv st"
proof (induction rule: reachable.induct)
  case (init iS oS mB m1 m2 mi)
  then show ?case by (simp add: ams_inv_def DebugMode_init_def)
next
  case (tick st iRes oRes)
  then show ?case by (simp add: handleStreaming_inv)
next
  case (command st cmd)
  then show ?case by (simp add: handleAmsCommand_inv)
next
  case (environment st m1 m2 mi)
  then show ?case by (simp add: ams_inv_def)
qed

text \<open>
  C7. In every reachable state, matching mode implies that the AMS is enabled.
  On a call of \<open>handleStreaming\<close> where the timeout is positive and the elapsed
  time has reached it, the AMS is disabled and in monitoring mode afterwards;
  if it was enabled, the call only counts the loop, resets the debug counter
  and clears the two flags, and its output ends with the TIMEOUT frame
  followed by the ACK frame, which are its only frames: no sample is taken, no
  interval bookkeeping is done and no motor is commanded. The only line that
  can precede the two frames is the debug line printed on every hundredth
  call.
\<close>

theorem ams_matching_implies_enabled_and_timeout_tick:
  assumes "reachable st"
  shows "(amsMatching st \<longrightarrow> amsEnabled st)
     \<and> (sint (amsTimeout_m st) > 0 \<and> uint (elapsedAtTick st) \<ge> uint (amsTimeout_m st) \<longrightarrow>
          \<not> amsEnabled (fst (handleStreaming st iRes oRes))
        \<and> \<not> amsMatching (fst (handleStreaming st iRes oRes))
        \<and> (amsEnabled st \<longrightarrow>
             fst (handleStreaming st iRes oRes)
               = st\<lparr>loopCounter := loopCounter st + 1, amsDebugCounter := 0,
                     amsEnabled := False, amsMatching := False\<rparr>
           \<and> snd (handleStreaming st iRes oRes)
               = (if uint (amsDebugCounter st + 1) mod 100 = 1
                  then [DbgLoop (amsMatching st) (elapsedAtTick st) (amsTimeout_m st)] else [])
                 @ [FrameTimeout (elapsedAtTick st), FrameAck ''ams'' ''TIMEOUT'']
           \<and> filter is_frame (snd (handleStreaming st iRes oRes))
               = [FrameTimeout (elapsedAtTick st), FrameAck ''ams'' ''TIMEOUT'']))"
proof -
  have inv: "ams_inv st" using assms by (rule reachable_inv)
  show ?thesis
    using inv
    unfolding ams_inv_def handleStreaming_def Let_def elapsedAtTick_def
    by (auto simp add: split_beta)
qed

lemma reachable_run_ticks: "reachable st \<Longrightarrow> reachable (run_ticks n st)"
  by (induction n) (simp_all add: reachable.tick)

lemma ams_started_reachable: "reachable ams_started"
  unfolding ams_started_def by (intro reachable.command reachable.init)

lemma ams_started_fields:
  "ams_started = (DebugMode_init True True True motor_ready motor_ready matcher_defaults)
      \<lparr>amsInterval_m := 1000, amsTimeout_m := 100, amsLogInterval_m := 1,
       amsEnabled := True, amsMatching := True\<rparr>"
  by (simp add: ams_started_def handleAmsCommand_def DebugMode_init_def Let_def)

text \<open>A call before the timeout and before the interval only counts.\<close>

lemma waiting_tick:
  assumes "amsEnabled st" "iSensor_present st" "oSensor_present st" "mBoard_present st"
    and "uint (elapsedAtTick st) < uint (amsTimeout_m st)"
    and "uint ((loopCounter st + 1) * 10 - lastAmsTime st) < uint (amsInterval_m st)"
  shows "fst (handleStreaming st iRes oRes)
     = st\<lparr>loopCounter := loopCounter st + 1, amsDebugCounter := amsDebugCounter st + 1\<rparr>"
  using assms by (simp add: handleStreaming_def Let_def elapsedAtTick_def)

lemma run_ticks_waiting:
  "n \<le> 9 \<Longrightarrow> run_ticks n ams_started
     = ams_started\<lparr>loopCounter := of_nat n, amsDebugCounter := of_nat n\<rparr>"
proof (induction n)
  case 0
  then show ?case by (simp add: ams_started_fields DebugMode_init_def)
next
  case (Suc n)
  then have "n \<in> {0, 1, 2, 3, 4, 5, 6, 7, 8}" by auto
  then have small: "uint ((of_nat n + 1) * 10 :: u32) < 100"
    by (elim insertE emptyE) simp_all
  have "run_ticks (Suc n) ams_started
      = fst (handleStreaming (ams_started\<lparr>loopCounter := of_nat n, amsDebugCounter := of_nat n\<rparr>)
              sample_matched sample_matched)"
    using Suc by simp
  also have "\<dots> = ams_started\<lparr>loopCounter := of_nat n, amsDebugCounter := of_nat n\<rparr>
       \<lparr>loopCounter := of_nat n + 1, amsDebugCounter := of_nat n + 1\<rparr>"
    using small
    by (subst waiting_tick)
       (simp_all add: elapsedAtTick_def ams_started_fields DebugMode_init_def)
  finally show ?case by simp
qed

text \<open>
  After \<open>ams 1000 100 1\<close> and nine iterations the tenth one finds 100 ms
  elapsed: it disables the AMS and sends the two frames.
\<close>

theorem ams_matching_implies_enabled_and_timeout_tick_witness:
  "reachable (run_ticks 9 ams_started)
   \<and> amsMatching (run_ticks 9 ams_started) \<and> amsEnabled (run_ticks 9 ams_started)
   \<and> sint (amsTimeout_m (run_ticks 9 ams_started)) > 0
   \<and> uint (elapsedAtTick (run_ticks 9 ams_started)) \<ge> uint (amsTimeout_m (run_ticks 9 ams_started))
   \<and> \<not> amsEnabled (fst (handleStreaming (run_ticks 9 ams_started) sample_matched sample_matched))
   \<and> \<not> amsMatching (fst (handleStreaming (run_ticks 9 ams_started) sample_matched sample_matched))
   \<and> snd (handleStreaming (run_ticks 9 ams_started) sample_matched sample_matched)
       = [FrameTimeout 100, FrameAck ''ams'' ''TIMEOUT'']"
proof -
  have r: "reachable (run_ticks 9 ams_started)"
    by (intro reachable_run_ticks ams_started_reachable)
  have f: "run_ticks 9 ams_started = ams_started\<lparr>loopCounter := 9, amsDebugCounter := 9\<rparr>"
    using run_ticks_waiting [of 9] by simp
  have g: "amsMatching (run_ticks 9 ams_started)" "amsEnabled (run_ticks 9 ams_started)"
    "amsTimeout_m (run_ticks 9 ams_started) = 100"
    "elapsedAtTick (run_ticks 9 ams_started) = 100"
    "amsDebugCounter (run_ticks 9 ams_started) = 9"
    unfolding f by (simp_all add: elapsedAtTick_def ams_started_fields DebugMode_init_def)
  from ams_matching_implies_enabled_and_timeout_tick [OF r, of sample_matched sample_matched] r g
  show ?thesis by simp
qed

end
